theory Spec2Isabelle
  imports Complex_Main "HOL-Library.Word"
begin

section \<open>The C library calls used by readMESH\<close>

text \<open>
  \<open>readMESH\<close> reads its file through \<open>fgets\<close>, \<open>sscanf\<close> and \<open>fscanf\<close>.
  The file is a list of bytes; the unread part of the stream is the field \<open>mesh_file\<close>
  of the state below.  Every scanning function returns what the conversion assigned
  (\<open>None\<close> when the directive did not match) and the rest of its input.
\<close>

definition isspace :: "char \<Rightarrow> bool" where
  "isspace c = (c = CHR '' '' \<or> c = CHR 0x09 \<or> c = CHR 0x0A \<or> c = CHR 0x0B
     \<or> c = CHR 0x0C \<or> c = CHR 0x0D)"

definition isdigit :: "char \<Rightarrow> bool" where
  "isdigit c = (c \<in> set ''0123456789'')"

definition digit_val :: "char \<Rightarrow> nat" where
  "digit_val c = of_char c - 48"

definition decimal :: "string \<Rightarrow> nat" where
  "decimal ds = foldl (\<lambda>acc c. 10 * acc + digit_val c) 0 ds"

text \<open>\<open>LINE_MAX\<close> is defined by the source itself when the headers do not.\<close>

definition LINE_MAX :: nat where
  "LINE_MAX = 2048"

text \<open>
  The bytes \<open>fgets(line, n + 1, f)\<close> stores: at most \<open>n\<close> of them, up to and including
  the first newline.
\<close>

fun take_line :: "nat \<Rightarrow> string \<Rightarrow> string \<times> string" where
  "take_line n [] = ([], [])"
| "take_line n (c # cs) =
     (if n = 0 then ([], c # cs)
      else if c = CHR 0x0A then ([c], cs)
      else (let (l, r) = take_line (n - 1) cs in (c # l, r)))"

text \<open>A buffer read as a C string ends at its first NUL byte.\<close>

definition c_str :: "string \<Rightarrow> string" where
  "c_str buf = takeWhile (\<lambda>c. c \<noteq> CHR 0x00) buf"

definition first_char :: "string \<Rightarrow> char" where
  "first_char buf = (case buf of [] \<Rightarrow> CHR 0x00 | c # _ \<Rightarrow> c)"

text \<open>The directive \<open>%s\<close>: skip white space, then take the bytes up to the next white space.\<close>

definition scan_s :: "string \<Rightarrow> (string \<times> string) option" where
  "scan_s inp =
     (let s = dropWhile isspace inp
      in if s = [] then None
         else Some (takeWhile (\<lambda>c. \<not> isspace c) s, dropWhile (\<lambda>c. \<not> isspace c) s))"

text \<open>
  The decimal integer directives \<open>%d\<close> and \<open>%ld\<close>: skip white space, an optional sign,
  then at least one digit.  The value is the mathematical one.
\<close>

definition scan_integer :: "string \<Rightarrow> int option \<times> string" where
  "scan_integer inp =
     (let s = dropWhile isspace inp;
          neg = (s \<noteq> [] \<and> hd s = CHR ''-'');
          s' = (if s \<noteq> [] \<and> (hd s = CHR ''-'' \<or> hd s = CHR ''+'') then tl s else s);
          ds = takeWhile isdigit s'
      in if ds = [] then (None, s')
         else (Some (if neg then - int (decimal ds) else int (decimal ds)),
               dropWhile isdigit s'))"

text \<open>
  The C library converts the digits as \<open>strtol\<close> does, which stops at the ends of the
  range of \<open>long\<close>, and stores the \<open>long\<close> into the object the caller passed: an
  \<open>int\<close> for \<open>%d\<close>, and for \<open>%ld\<close> the \<open>size_t\<close> variables of readMESH, which
  keep its 64 bits.
\<close>

definition clamp_long :: "int \<Rightarrow> int" where
  "clamp_long n = max (- (2 ^ 63)) (min (2 ^ 63 - 1) n)"

definition scan_d :: "string \<Rightarrow> 32 word option \<times> string" where
  "scan_d inp = (case scan_integer inp of (v, r) \<Rightarrow> (map_option (\<lambda>n. word_of_int (clamp_long n)) v, r))"

definition scan_ld :: "string \<Rightarrow> 64 word option \<times> string" where
  "scan_ld inp = (case scan_integer inp of (v, r) \<Rightarrow> (map_option (\<lambda>n. word_of_int (clamp_long n)) v, r))"

text \<open>\<open>sscanf(line," %s",str)\<close>: the new contents of \<open>str\<close>, unchanged when nothing matched.\<close>

definition sscanf_s :: "string \<Rightarrow> string \<Rightarrow> string" where
  "sscanf_s buf old = (case scan_s (c_str buf) of None \<Rightarrow> old | Some (tok, _) \<Rightarrow> tok)"

text \<open>
  \<open>sscanf(line,"%s %d",str,&n)\<close>: the number of items assigned (\<open>-1\<close> is \<open>EOF\<close>), and
  the new contents of \<open>str\<close> and \<open>n\<close>.
\<close>

definition sscanf_s_d :: "string \<Rightarrow> string \<Rightarrow> 32 word \<Rightarrow> int \<times> string \<times> 32 word" where
  "sscanf_s_d buf old_str old_n =
     (case scan_s (c_str buf) of
        None \<Rightarrow> (- 1, old_str, old_n)
      | Some (tok, rest) \<Rightarrow>
          (case scan_d rest of
             (None, _) \<Rightarrow> (1, tok, old_n)
           | (Some v, _) \<Rightarrow> (2, tok, v)))"

text \<open>\<open>fscanf(f," %ld %ld %ld %ld",...)\<close> and its five-field form, all items or none.\<close>

definition fscanf_ld4 :: "string \<Rightarrow> (64 word \<times> 64 word \<times> 64 word \<times> 64 word) option \<times> string" where
  "fscanf_ld4 inp =
     (case scan_ld inp of (None, r) \<Rightarrow> (None, r) | (Some a, r) \<Rightarrow>
     (case scan_ld r of (None, r) \<Rightarrow> (None, r) | (Some b, r) \<Rightarrow>
     (case scan_ld r of (None, r) \<Rightarrow> (None, r) | (Some c, r) \<Rightarrow>
     (case scan_ld r of (None, r) \<Rightarrow> (None, r) | (Some e, r) \<Rightarrow> (Some (a, b, c, e), r)))))"

definition fscanf_ld5 ::
  "string \<Rightarrow> (64 word \<times> 64 word \<times> 64 word \<times> 64 word \<times> 64 word) option \<times> string" where
  "fscanf_ld5 inp =
     (case scan_ld inp of (None, r) \<Rightarrow> (None, r) | (Some a, r) \<Rightarrow>
     (case scan_ld r of (None, r) \<Rightarrow> (None, r) | (Some b, r) \<Rightarrow>
     (case scan_ld r of (None, r) \<Rightarrow> (None, r) | (Some c, r) \<Rightarrow>
     (case scan_ld r of (None, r) \<Rightarrow> (None, r) | (Some d, r) \<Rightarrow>
     (case scan_ld r of (None, r) \<Rightarrow> (None, r) | (Some e, r) \<Rightarrow> (Some (a, b, c, d, e), r))))))"

text \<open>
  \<open>fscanf(f," %lg %lg %lg %ld",&x,&y,&z,&extra)\<close>.  The conversion \<open>%lg\<close> of the C
  library, followed by the conversion of the \<open>double\<close> to the template's \<open>Scalar\<close>,
  is the parameter \<open>scan_lg\<close>.
\<close>

type_synonym 's lg_scanner = "string \<Rightarrow> 's option \<times> string"

definition fscanf_lg3_ld :: "'s lg_scanner \<Rightarrow> string \<Rightarrow> ('s \<times> 's \<times> 's) option \<times> string" where
  "fscanf_lg3_ld scan_lg inp =
     (case scan_lg inp of (None, r) \<Rightarrow> (None, r) | (Some x, r) \<Rightarrow>
     (case scan_lg r of (None, r) \<Rightarrow> (None, r) | (Some y, r) \<Rightarrow>
     (case scan_lg r of (None, r) \<Rightarrow> (None, r) | (Some z, r) \<Rightarrow>
     (case scan_ld r of (None, r) \<Rightarrow> (None, r) | (Some extra, r) \<Rightarrow> (Some (x, y, z), r)))))"

text \<open>
  A scanner for the plain decimal literals of \<open>%lg\<close> (sign, digits, fraction, exponent
  with digits), with the exact value of the literal as a rational.  It is not the C
  library's conversion: it takes no hexadecimal literal, no \<open>inf\<close> or \<open>nan\<close>, no
  exponent letter without digits, and it does not round to a \<open>double\<close>.  The general
  theorems are stated for every \<open>scan_lg\<close>; this one only runs the concrete files
  below, whose coordinates are integer literals.
\<close>

definition scan_exponent :: "string \<Rightarrow> int option \<times> string" where
  "scan_exponent s =
     (if s \<noteq> [] \<and> (hd s = CHR ''e'' \<or> hd s = CHR ''E'') then
        (let t = tl s;
             neg = (t \<noteq> [] \<and> hd t = CHR ''-'');
             t' = (if t \<noteq> [] \<and> (hd t = CHR ''-'' \<or> hd t = CHR ''+'') then tl t else t);
             ds = takeWhile isdigit t'
         in if ds = [] then (None, t')
            else (Some (if neg then - int (decimal ds) else int (decimal ds)),
                  dropWhile isdigit t'))
      else (Some 0, s))"

definition pow10 :: "int \<Rightarrow> rat" where
  "pow10 e = (if e < 0 then 1 / 10 ^ nat (- e) else 10 ^ nat e)"

definition scan_lg_decimal :: "rat lg_scanner" where
  "scan_lg_decimal inp =
     (let s = dropWhile isspace inp;
          neg = (s \<noteq> [] \<and> hd s = CHR ''-'');
          s1 = (if s \<noteq> [] \<and> (hd s = CHR ''-'' \<or> hd s = CHR ''+'') then tl s else s);
          ip = takeWhile isdigit s1;
          s2 = dropWhile isdigit s1;
          dot = (s2 \<noteq> [] \<and> hd s2 = CHR ''.'');
          fp = (if dot then takeWhile isdigit (tl s2) else []);
          s3 = (if dot then dropWhile isdigit (tl s2) else s2)
      in if ip = [] \<and> fp = [] then (None, s3)
         else (case scan_exponent s3 of
                 (None, r) \<Rightarrow> (None, r)
               | (Some e, r) \<Rightarrow>
                   (Some ((if neg then - 1 else 1) * of_nat (decimal (ip @ fp))
                            * pow10 (e - int (length fp))), r)))"

section \<open>The state of a call\<close>

text \<open>
  The three output vectors the caller passed by reference, the stream and whether its
  handle is open, and the local buffers and counts of the function.  The buffers and
  counts hold whatever the stack held when the call starts.
\<close>

record ('s, 'i) state =
  V :: "'s list list"
  T :: "'i list list"
  F :: "'i list list"
  mesh_file :: string
  is_open :: bool
  line :: string
  str :: string
  number_of_vertices :: "64 word"
  number_of_triangles :: "64 word"
  number_of_tetrahedra :: "64 word"

text \<open>What \<open>fprintf\<close>/\<open>printf\<close> reported before a \<open>return false\<close>.\<close>

datatype message =
    IOError
  | First_word string
  | Second_word int
  | Third_word string
  | Dimension_not int
  | Fifth_word string
  | Expecting_number_of_vertices
  | Expecting_vertex_position
  | Sixth_word string
  | Expecting_number_of_triangles
  | Expecting_triangle_indices
  | Seventh_word string
  | Expecting_number_of_tetrahedra
  | Expecting_tetrahedra_indices

text \<open>
  How a call ends: it returns \<open>true\<close>, it returns \<open>false\<close> after a message, or
  \<open>std::vector::resize\<close> throws \<open>std::length_error\<close>, which readMESH does not catch.
\<close>

datatype result = Returned_true | Returned_false message | Threw_length_error

type_synonym ('s, 'i) exit = "result \<times> ('s, 'i) state"

definition fclose :: "('s, 'i) state \<Rightarrow> ('s, 'i) state" where
  "fclose st = st\<lparr>is_open := False\<rparr>"

text \<open>
  \<open>fgets(line,LINE_MAX,mesh_file)\<close>: at the end of the file it returns \<open>NULL\<close> and leaves
  \<open>line\<close> as it was; readMESH does not look at the returned pointer.
\<close>

definition fgets :: "('s, 'i) state \<Rightarrow> ('s, 'i) state" where
  "fgets st =
     (if mesh_file st = [] then st
      else (let (l, r) = take_line (LINE_MAX - 1) (mesh_file st)
            in st\<lparr>line := l, mesh_file := r\<rparr>))"

text \<open>
  \<open>v.resize(n, x)\<close> of libstdc++: it throws when \<open>n\<close> exceeds \<open>max_size()\<close>, which for a
  vector of vectors (24 bytes each) is \<open>PTRDIFF_MAX / 24\<close>.  Memory is taken to suffice
  below that.
\<close>

definition resize :: "nat \<Rightarrow> 'a \<Rightarrow> 'a list \<Rightarrow> 'a list" where
  "resize n x xs = take n xs @ replicate (n - length xs) x"

definition vector_max_size :: nat where
  "vector_max_size = (2 ^ 63 - 1) div 24"

section \<open>readMESH, the generic overload\<close>

text \<open>
  The loop \<open>while(still_comments)\<close>, which the source has five times, once in front of
  each keyword.  It does not return when it runs forever.
\<close>

partial_function (option) eat_comments :: "('s, 'i) state \<Rightarrow> ('s, 'i) state option" where
  "eat_comments st =
     (let st' = fgets st
      in if first_char (line st') = CHR ''#'' \<or> first_char (line st') = CHR 0x0A
         then eat_comments st' else Some st')"

text \<open>
  \<open>sscanf(line," %s",str)\<close>, \<open>strcmp\<close> with the expected word, and the failure branch
  with its message; the source has this five times as well.
\<close>

definition expect_word ::
  "string \<Rightarrow> (string \<Rightarrow> message) \<Rightarrow> ('s, 'i) state \<Rightarrow> ('s, 'i) exit + ('s, 'i) state" where
  "expect_word word msg st =
     (let st1 = st\<lparr>str := sscanf_s (line st) (str st)\<rparr>
      in if str st1 \<noteq> word then Inl (Returned_false (msg (str st1)), fclose st1)
         else Inr st1)"

text \<open>
  \<open>int one = -1; if(2 != sscanf(line,"%s %d",str,&one)) fscanf(mesh_file," %d",&one);\<close>
  The value of \<open>one\<close> afterwards, and the state.
\<close>

definition read_scalar :: "('s, 'i) state \<Rightarrow> 32 word \<times> ('s, 'i) state" where
  "read_scalar st =
     (case sscanf_s_d (line st) (str st) (- 1) of
        (n, str', one) \<Rightarrow>
          if 2 \<noteq> n then
            (case scan_d (mesh_file st) of
               (v, r) \<Rightarrow> (case v of None \<Rightarrow> one | Some w \<Rightarrow> w, st\<lparr>str := str', mesh_file := r\<rparr>))
          else (one, st\<lparr>str := str'\<rparr>))"

definition check_version :: "('s, 'i) state \<Rightarrow> ('s, 'i) exit + ('s, 'i) state" where
  "check_version st =
     (case expect_word ''MeshVersionFormatted'' First_word st of
        Inl e \<Rightarrow> Inl e
      | Inr st1 \<Rightarrow>
          (case read_scalar st1 of
             (one, st2) \<Rightarrow>
               if one \<noteq> 1 then Inl (Returned_false (Second_word (sint one)), fclose st2)
               else Inr st2))"

definition check_dimension :: "('s, 'i) state \<Rightarrow> ('s, 'i) exit + ('s, 'i) state" where
  "check_dimension st =
     (case expect_word ''Dimension'' Third_word st of
        Inl e \<Rightarrow> Inl e
      | Inr st1 \<Rightarrow>
          (case read_scalar st1 of
             (three, st2) \<Rightarrow>
               if three \<noteq> 3 then Inl (Returned_false (Dimension_not (sint three)), fclose st2)
               else Inr st2))"

text \<open>The three counted loops, \<open>for(size_t i = 0;i<n;i++)\<close>.\<close>

function vertex_loop ::
  "'s lg_scanner \<Rightarrow> nat \<Rightarrow> nat \<Rightarrow> ('s, 'i) state \<Rightarrow> ('s, 'i) exit + ('s, 'i) state" where
  "vertex_loop scan_lg n i st =
     (if i < n then
        (case fscanf_lg3_ld scan_lg (mesh_file st) of
           (None, r) \<Rightarrow> Inl (Returned_false Expecting_vertex_position, fclose (st\<lparr>mesh_file := r\<rparr>))
         | (Some (x, y, z), r) \<Rightarrow>
             vertex_loop scan_lg n (Suc i)
               (st\<lparr>mesh_file := r, V := (V st)[i := (V st ! i)[0 := x, 1 := y, 2 := z]]\<rparr>))
      else Inr st)"
  by pat_completeness auto

termination
  by (relation "measure (\<lambda>(scan_lg, n, i, st). n - i)") auto

text \<open>The failure branch of the triangle loop returns without \<open>fclose\<close>.\<close>

function triangle_loop ::
  "(64 word \<Rightarrow> 'i) \<Rightarrow> nat \<Rightarrow> nat \<Rightarrow> ('s, 'i) state \<Rightarrow> ('s, 'i) exit + ('s, 'i) state" where
  "triangle_loop to_index n i st =
     (if i < n then
        (case fscanf_ld4 (mesh_file st) of
           (None, r) \<Rightarrow> Inl (Returned_false Expecting_triangle_indices, st\<lparr>mesh_file := r\<rparr>)
         | (Some (a, b, c, extra), r) \<Rightarrow>
             triangle_loop to_index n (Suc i)
               (st\<lparr>mesh_file := r,
                   F := (F st)[i := (F st ! i)[0 := to_index (a - 1), 1 := to_index (b - 1),
                                               2 := to_index (c - 1)]]\<rparr>))
      else Inr st)"
  by pat_completeness auto

termination
  by (relation "measure (\<lambda>(to_index, n, i, st). n - i)") auto

function tetrahedron_loop ::
  "(64 word \<Rightarrow> 'i) \<Rightarrow> nat \<Rightarrow> nat \<Rightarrow> ('s, 'i) state \<Rightarrow> ('s, 'i) exit + ('s, 'i) state" where
  "tetrahedron_loop to_index n i st =
     (if i < n then
        (case fscanf_ld5 (mesh_file st) of
           (None, r) \<Rightarrow>
             Inl (Returned_false Expecting_tetrahedra_indices, fclose (st\<lparr>mesh_file := r\<rparr>))
         | (Some (a, b, c, d, extra), r) \<Rightarrow>
             tetrahedron_loop to_index n (Suc i)
               (st\<lparr>mesh_file := r,
                   T := (T st)[i := (T st ! i)[0 := to_index (a - 1), 1 := to_index (b - 1),
                                               2 := to_index (c - 1), 3 := to_index (d - 1)]]\<rparr>))
      else Inr st)"
  by pat_completeness auto

termination
  by (relation "measure (\<lambda>(to_index, n, i, st). n - i)") auto

text \<open>
  Each section after its comments: the keyword, the count read with \<open>%ld\<close> into a
  \<open>size_t\<close>, the \<open>resize\<close>, the records.  \<open>to_index\<close> is the conversion of a \<open>size_t\<close>
  to the template's \<open>Index\<close>.
\<close>

definition read_vertices ::
  "'s::zero lg_scanner \<Rightarrow> ('s, 'i) state \<Rightarrow> ('s, 'i) exit + ('s, 'i) state" where
  "read_vertices scan_lg st =
     (case expect_word ''Vertices'' Fifth_word st of
        Inl e \<Rightarrow> Inl e
      | Inr st1 \<Rightarrow>
          (case scan_ld (mesh_file st1) of
             (None, r) \<Rightarrow>
               Inl (Returned_false Expecting_number_of_vertices, fclose (st1\<lparr>mesh_file := r\<rparr>))
           | (Some n, r) \<Rightarrow>
               (let st2 = st1\<lparr>mesh_file := r, number_of_vertices := n\<rparr>
                in if vector_max_size < unat n then Inl (Threw_length_error, st2)
                   else vertex_loop scan_lg (unat n) 0
                          (st2\<lparr>V := resize (unat n) (replicate 3 0) (V st2)\<rparr>))))"

definition read_triangles ::
  "(64 word \<Rightarrow> 'i::zero) \<Rightarrow> ('s, 'i) state \<Rightarrow> ('s, 'i) exit + ('s, 'i) state" where
  "read_triangles to_index st =
     (case expect_word ''Triangles'' Sixth_word st of
        Inl e \<Rightarrow> Inl e
      | Inr st1 \<Rightarrow>
          (case scan_ld (mesh_file st1) of
             (None, r) \<Rightarrow>
               Inl (Returned_false Expecting_number_of_triangles, fclose (st1\<lparr>mesh_file := r\<rparr>))
           | (Some n, r) \<Rightarrow>
               (let st2 = st1\<lparr>mesh_file := r, number_of_triangles := n\<rparr>
                in if vector_max_size < unat n then Inl (Threw_length_error, st2)
                   else triangle_loop to_index (unat n) 0
                          (st2\<lparr>F := resize (unat n) (replicate 3 0) (F st2)\<rparr>))))"

definition read_tetrahedra ::
  "(64 word \<Rightarrow> 'i::zero) \<Rightarrow> ('s, 'i) state \<Rightarrow> ('s, 'i) exit + ('s, 'i) state" where
  "read_tetrahedra to_index st =
     (case expect_word ''Tetrahedra'' Seventh_word st of
        Inl e \<Rightarrow> Inl e
      | Inr st1 \<Rightarrow>
          (case scan_ld (mesh_file st1) of
             (None, r) \<Rightarrow>
               Inl (Returned_false Expecting_number_of_tetrahedra, fclose (st1\<lparr>mesh_file := r\<rparr>))
           | (Some n, r) \<Rightarrow>
               (let st2 = st1\<lparr>mesh_file := r, number_of_tetrahedra := n\<rparr>
                in if vector_max_size < unat n then Inl (Threw_length_error, st2)
                   else tetrahedron_loop to_index (unat n) 0
                          (st2\<lparr>T := resize (unat n) (replicate 4 0) (T st2)\<rparr>))))"

text \<open>
  A section is the comment loop followed by its check; \<open>and_then\<close> runs the next section
  unless the call has already ended or the comment loop never ends.
\<close>

definition section_of ::
  "(('s, 'i) state \<Rightarrow> ('s, 'i) exit + ('s, 'i) state) \<Rightarrow> ('s, 'i) state
     \<Rightarrow> (('s, 'i) exit + ('s, 'i) state) option" where
  "section_of check st = map_option check (eat_comments st)"

definition and_then ::
  "('e + 'a) option \<Rightarrow> ('a \<Rightarrow> ('e + 'b) option) \<Rightarrow> ('e + 'b) option" where
  "and_then m f = (case m of None \<Rightarrow> None | Some (Inl e) \<Rightarrow> Some (Inl e) | Some (Inr a) \<Rightarrow> f a)"

definition opened :: "string \<Rightarrow> ('s, 'i) state \<Rightarrow> ('s, 'i) state" where
  "opened content st = st\<lparr>mesh_file := content, is_open := True, V := [], T := [], F := []\<rparr>"

definition sections ::
  "'s::zero lg_scanner \<Rightarrow> (64 word \<Rightarrow> 'i::zero) \<Rightarrow> ('s, 'i) state
     \<Rightarrow> (('s, 'i) exit + ('s, 'i) state) option" where
  "sections scan_lg to_index st =
     and_then (and_then (and_then (and_then
       (section_of check_version st)
       (section_of check_dimension))
       (section_of (read_vertices scan_lg)))
       (section_of (read_triangles to_index)))
       (section_of (read_tetrahedra to_index))"

text \<open>
  The end of the call: an exit taken in a section, or \<open>fclose(mesh_file); return true;\<close>
  after the last one.  The value \<open>None\<close> is a call that never returns.
\<close>

definition finish :: "(('s, 'i) exit + ('s, 'i) state) option \<Rightarrow> ('s, 'i) exit option" where
  "finish m =
     (case m of
        None \<Rightarrow> None
      | Some (Inl e) \<Rightarrow> Some e
      | Some (Inr st) \<Rightarrow> Some (Returned_true, fclose st))"

text \<open>
  The call.  \<open>file\<close> is what \<open>fopen\<close> finds under \<open>mesh_file_name\<close>: \<open>None\<close> when the
  file cannot be opened.  \<open>st0\<close> holds the caller's vectors and the indeterminate locals.
\<close>

definition readMESH ::
  "'s::zero lg_scanner \<Rightarrow> (64 word \<Rightarrow> 'i::zero) \<Rightarrow> string option \<Rightarrow> ('s, 'i) state
     \<Rightarrow> ('s, 'i) exit option" where
  "readMESH scan_lg to_index file st0 =
     (case file of
        None \<Rightarrow> Some (Returned_false IOError, st0)
      | Some content \<Rightarrow> finish (sections scan_lg to_index (opened content st0)))"

section \<open>readMESH, the Eigen overload\<close>

text \<open>A dense matrix: its dimensions and its coefficients, row by row.\<close>

record 'a matrix =
  rows :: nat
  cols :: nat
  coeffs :: "'a list list"

text \<open>
  Modelled from the spec: \<open>igl::list_to_matrix\<close>, whose header \<open>list_to_matrix.h\<close> is
  not among the sources.  The spec has it as a conversion of a list of rows to a
  rectangular matrix that fails if the rows are not of uniform length, and that keeps the
  order of the rows.  \<open>cast\<close> converts an entry of the list to a coefficient of the
  matrix.  A failed conversion leaves the matrix as it was.
\<close>

definition list_to_matrix :: "('a \<Rightarrow> 'b) \<Rightarrow> 'a list list \<Rightarrow> 'b matrix \<Rightarrow> bool \<times> 'b matrix" where
  "list_to_matrix cast vs M =
     (if list_all (\<lambda>r. length r = length (hd vs)) vs
      then (True, \<lparr>rows = length vs, cols = (if vs = [] then 0 else length (hd vs)),
                   coeffs = map (map cast) vs\<rparr>)
      else (False, M))"

text \<open>
  How a call of the Eigen overload ends: \<open>true\<close>, \<open>false\<close>, a failed \<open>assert\<close>, or
  the exception of the generic overload passing through.
\<close>

datatype eigen_result = Eigen_true | Eigen_false | Assertion_failed | Eigen_length_error

text \<open>
  The part of the overload after the generic call: the three conversions, each writing
  the caller's matrix, and the three assertions, taken as compiled in (no \<open>NDEBUG\<close>).
  \<open>Vm\<close>, \<open>Tm\<close>, \<open>Fm\<close> are the caller's \<open>V\<close>, \<open>T\<close>, \<open>F\<close>.
\<close>

definition to_matrices ::
  "('d \<Rightarrow> 'a) \<Rightarrow> ('d \<Rightarrow> 'b) \<Rightarrow> 'd list list \<times> 'd list list \<times> 'd list list
     \<Rightarrow> 'a matrix \<times> 'b matrix \<times> 'b matrix
     \<Rightarrow> eigen_result \<times> 'a matrix \<times> 'b matrix \<times> 'b matrix" where
  "to_matrices cast_d cast_i vs out =
     (case (vs, out) of ((vV, vT, vF), (Vm, Tm, Fm)) \<Rightarrow>
        (case list_to_matrix cast_d vV Vm of (V_rect, Vm') \<Rightarrow>
           if \<not> V_rect then (Eigen_false, Vm', Tm, Fm)
           else (case list_to_matrix cast_i vT Tm of (T_rect, Tm') \<Rightarrow>
             if \<not> T_rect then (Eigen_false, Vm', Tm', Fm)
             else (case list_to_matrix cast_i vF Fm of (F_rect, Fm') \<Rightarrow>
               if \<not> F_rect then (Eigen_false, Vm', Tm', Fm')
               else if cols Vm' \<noteq> 3 then (Assertion_failed, Vm', Tm', Fm')
               else if cols Tm' \<noteq> 4 then (Assertion_failed, Vm', Tm', Fm')
               else if cols Fm' \<noteq> 3 then (Assertion_failed, Vm', Tm', Fm')
               else (Eigen_true, Vm', Tm', Fm')))))"

text \<open>
  The overload: the generic call at \<open>Scalar = Index = double\<close> on fresh vectors, then
  the conversions.  \<open>locals\<close> holds the indeterminate locals of the generic call.
\<close>

definition readMESH_Eigen ::
  "'d::zero lg_scanner \<Rightarrow> (64 word \<Rightarrow> 'd) \<Rightarrow> ('d \<Rightarrow> 'a) \<Rightarrow> ('d \<Rightarrow> 'b) \<Rightarrow> string option
     \<Rightarrow> ('d, 'd) state \<Rightarrow> 'a matrix \<times> 'b matrix \<times> 'b matrix
     \<Rightarrow> (eigen_result \<times> 'a matrix \<times> 'b matrix \<times> 'b matrix) option" where
  "readMESH_Eigen scan_lg to_index cast_d cast_i file locals out =
     (case readMESH scan_lg to_index file (locals\<lparr>V := [], T := [], F := []\<rparr>) of
        None \<Rightarrow> None
      | Some (Returned_false m, st) \<Rightarrow> Some (Eigen_false, out)
      | Some (Threw_length_error, st) \<Rightarrow> Some (Eigen_length_error, out)
      | Some (Returned_true, st) \<Rightarrow> Some (to_matrices cast_d cast_i (V st, T st, F st) out))"

section \<open>Notions used to state the claims\<close>

text \<open>The fields of the state that only the sections' own code writes.\<close>

definition same_data :: "('s, 'i) state \<Rightarrow> ('s, 'i) state \<Rightarrow> bool" where
  "same_data st st' = (V st' = V st \<and> T st' = T st \<and> F st' = F st \<and> is_open st' = is_open st
     \<and> number_of_vertices st' = number_of_vertices st
     \<and> number_of_triangles st' = number_of_triangles st
     \<and> number_of_tetrahedra st' = number_of_tetrahedra st)"

text \<open>
  What the file holds, read by the same \<open>fscanf\<close> calls: the coordinates of the first
  \<open>k\<close> vertex records of an input, and the index fields of its first \<open>k\<close> triangle or
  tetrahedron records, as far as complete records follow each other.
\<close>

fun vertex_records :: "'s lg_scanner \<Rightarrow> nat \<Rightarrow> string \<Rightarrow> 's list list" where
  "vertex_records scan_lg 0 inp = []"
| "vertex_records scan_lg (Suc k) inp =
     (case fscanf_lg3_ld scan_lg inp of
        (None, r) \<Rightarrow> []
      | (Some (x, y, z), r) \<Rightarrow> [x, y, z] # vertex_records scan_lg k r)"

fun triangle_records :: "nat \<Rightarrow> string \<Rightarrow> (64 word \<times> 64 word \<times> 64 word) list" where
  "triangle_records 0 inp = []"
| "triangle_records (Suc k) inp =
     (case fscanf_ld4 inp of
        (None, r) \<Rightarrow> []
      | (Some (a, b, c, extra), r) \<Rightarrow> (a, b, c) # triangle_records k r)"

fun tetrahedron_records :: "nat \<Rightarrow> string \<Rightarrow> (64 word \<times> 64 word \<times> 64 word \<times> 64 word) list" where
  "tetrahedron_records 0 inp = []"
| "tetrahedron_records (Suc k) inp =
     (case fscanf_ld5 inp of
        (None, r) \<Rightarrow> []
      | (Some (a, b, c, d, extra), r) \<Rightarrow> (a, b, c, d) # tetrahedron_records k r)"

text \<open>
  The state in which the comment loop has found the line of the \<open>Vertices\<close>, the
  \<open>Triangles\<close> or the \<open>Tetrahedra\<close> keyword, when the call on a file gets that far.
\<close>

definition before_vertices :: "string \<Rightarrow> ('s, 'i) state \<Rightarrow> ('s, 'i) state option" where
  "before_vertices content st0 =
     (case and_then (section_of check_version (opened content st0)) (section_of check_dimension) of
        Some (Inr st) \<Rightarrow> eat_comments st
      | _ \<Rightarrow> None)"

definition before_triangles ::
  "'s::zero lg_scanner \<Rightarrow> string \<Rightarrow> ('s, 'i) state \<Rightarrow> ('s, 'i) state option" where
  "before_triangles scan_lg content st0 =
     (case before_vertices content st0 of
        None \<Rightarrow> None
      | Some st \<Rightarrow> (case read_vertices scan_lg st of Inl e \<Rightarrow> None | Inr st' \<Rightarrow> eat_comments st'))"

definition before_tetrahedra ::
  "'s::zero lg_scanner \<Rightarrow> (64 word \<Rightarrow> 'i::zero) \<Rightarrow> string \<Rightarrow> ('s, 'i) state
     \<Rightarrow> ('s, 'i) state option" where
  "before_tetrahedra scan_lg to_index content st0 =
     (case before_triangles scan_lg content st0 of
        None \<Rightarrow> None
      | Some st \<Rightarrow> (case read_triangles to_index st of Inl e \<Rightarrow> None | Inr st' \<Rightarrow> eat_comments st'))"

text \<open>The row the loops store for a record.\<close>

definition face_row :: "(64 word \<Rightarrow> 'i) \<Rightarrow> 64 word \<times> 64 word \<times> 64 word \<Rightarrow> 'i list" where
  "face_row to_index abc =
     (case abc of (a, b, c) \<Rightarrow> [to_index (a - 1), to_index (b - 1), to_index (c - 1)])"

definition tet_row ::
  "(64 word \<Rightarrow> 'i) \<Rightarrow> 64 word \<times> 64 word \<times> 64 word \<times> 64 word \<Rightarrow> 'i list" where
  "tet_row to_index abcd = (case abcd of (a, b, c, d) \<Rightarrow>
     [to_index (a - 1), to_index (b - 1), to_index (c - 1), to_index (d - 1)])"

text \<open>Concrete inputs: a caller with empty vectors and zeroed locals.\<close>

definition fresh_state :: "('s, 'i) state" where
  "fresh_state = \<lparr>V = [], T = [], F = [], mesh_file = [], is_open = False, line = [], str = [],
     number_of_vertices = 0, number_of_triangles = 0, number_of_tetrahedra = 0\<rparr>"

text \<open>
  The scenario file of the spec; a file with one tetrahedron, without and with a comment
  line in front of its record; a file with one vertex record of two; files with a
  negative count, a word for a count and no count; a file with two triangles; and the
  states in which the comment loop has found the first two keywords.
\<close>

definition scenario_file :: string where
  "scenario_file = ''MeshVersionFormatted 1\<newline>Dimension 3\<newline>Vertices\<newline>4\<newline>0 0 0 0\<newline>1 0 0 0\<newline>0 1 0 0\<newline>0 0 1 0\<newline>Triangles\<newline>1\<newline>1 2 3 0\<newline>Tetrahedra\<newline>1\<newline>1 2 3 4 0\<newline>''"

definition one_tetrahedron :: string where
  "one_tetrahedron = ''MeshVersionFormatted 1\<newline>Dimension 3\<newline>Vertices\<newline>0\<newline>Triangles\<newline>0\<newline>Tetrahedra\<newline>1\<newline>1 2 3 4 0\<newline>''"

definition one_tetrahedron_commented :: string where
  "one_tetrahedron_commented = ''MeshVersionFormatted 1\<newline>Dimension 3\<newline>Vertices\<newline>0\<newline>Triangles\<newline>0\<newline>Tetrahedra\<newline>1\<newline># the tetrahedron\<newline>1 2 3 4 0\<newline>''"

definition one_vertex_of_two :: string where
  "one_vertex_of_two = ''MeshVersionFormatted 1\<newline>Dimension 3\<newline>Vertices\<newline>2\<newline>1 2 3 0\<newline>''"

definition negative_vertex_count :: string where
  "negative_vertex_count = ''MeshVersionFormatted 1\<newline>Dimension 3\<newline>Vertices\<newline>-1\<newline>''"

definition word_for_triangle_count :: string where
  "word_for_triangle_count = ''MeshVersionFormatted 1\<newline>Dimension 3\<newline>Vertices\<newline>0\<newline>Triangles\<newline>many\<newline>''"

definition no_tetrahedron_count :: string where
  "no_tetrahedron_count = ''MeshVersionFormatted 1\<newline>Dimension 3\<newline>Vertices\<newline>0\<newline>Triangles\<newline>0\<newline>Tetrahedra\<newline>''"

definition two_triangles :: string where
  "two_triangles = ''MeshVersionFormatted 1\<newline>Dimension 3\<newline>Vertices\<newline>0\<newline>Triangles\<newline>2\<newline>1 2 3 0\<newline>4 2 1 7\<newline>Tetrahedra\<newline>1\<newline>1 2 3 4 0\<newline>''"

definition at_version :: "(rat, int) state" where
  "at_version = fresh_state\<lparr>is_open := True, line := ''MeshVersionFormatted 1\<newline>'',
     mesh_file := ''Dimension 3\<newline>''\<rparr>"

definition at_dimension :: "(rat, int) state" where
  "at_dimension = fresh_state\<lparr>is_open := True, line := ''Dimension\<newline>'',
     mesh_file := ''3\<newline>Vertices\<newline>''\<rparr>"

definition empty_matrix :: "'a matrix" where
  "empty_matrix = \<lparr>rows = 0, cols = 0, coeffs = []\<rparr>"


text \<open>
  The value that belongs to a keyword, in the spec's words: the number after the keyword
  on its own line if there is one, otherwise the number that comes next in the stream.
  The second component is the stream afterwards.
\<close>

definition same_line_value :: "string \<Rightarrow> 32 word option" where
  "same_line_value buf =
     (case scan_s (c_str buf) of None \<Rightarrow> None | Some (word, rest) \<Rightarrow> fst (scan_d rest))"

definition next_token_value :: "string \<Rightarrow> 32 word option" where
  "next_token_value stream = fst (scan_d stream)"

definition keyword_value :: "('s, 'i) state \<Rightarrow> 32 word option \<times> string" where
  "keyword_value st =
     (case same_line_value (line st) of
        Some v \<Rightarrow> (Some v, mesh_file st)
      | None \<Rightarrow> (next_token_value (mesh_file st), snd (scan_d (mesh_file st))))"

text \<open>
  A blank line or a line that starts with \<open>#\<close>, complete with its newline and short
  enough for one \<open>fgets\<close>.
\<close>

definition comment_line :: "string \<Rightarrow> bool" where
  "comment_line l = (l \<noteq> [] \<and> last l = CHR 0x0A \<and> CHR 0x0A \<notin> set (butlast l)
     \<and> length l < LINE_MAX \<and> (hd l = CHR ''#'' \<or> hd l = CHR 0x0A))"

section \<open>Unfolding the loops\<close>

lemma eat_comments_skip:
  "first_char (line (fgets st)) = CHR ''#'' \<or> first_char (line (fgets st)) = CHR 0x0A
     \<Longrightarrow> eat_comments st = eat_comments (fgets st)"
  by (subst eat_comments.simps) (simp add: Let_def)

lemma eat_comments_stop:
  "first_char (line (fgets st)) \<noteq> CHR ''#'' \<Longrightarrow> first_char (line (fgets st)) \<noteq> CHR 0x0A
     \<Longrightarrow> eat_comments st = Some (fgets st)"
  by (subst eat_comments.simps) (simp add: Let_def)

declare vertex_loop.simps [simp del]

declare triangle_loop.simps [simp del]

declare tetrahedron_loop.simps [simp del]

lemmas scan_defs = isspace_def isdigit_def digit_val_def decimal_def LINE_MAX_def c_str_def
  first_char_def scan_s_def scan_integer_def clamp_long_def scan_d_def scan_ld_def sscanf_s_def
  sscanf_s_d_def fscanf_ld4_def fscanf_ld5_def fscanf_lg3_ld_def scan_exponent_def pow10_def
  scan_lg_decimal_def

lemmas run_defs = fclose_def fgets_def resize_def vector_max_size_def expect_word_def
  read_scalar_def check_version_def check_dimension_def read_vertices_def read_triangles_def
  read_tetrahedra_def section_of_def and_then_def opened_def sections_def finish_def
  readMESH_def
  eat_comments_skip eat_comments_stop vertex_loop.simps triangle_loop.simps
  tetrahedron_loop.simps

section \<open>The comment loop at the end of the file\<close>

lemma fgets_eof: "mesh_file st = [] \<Longrightarrow> fgets st = st"
  by (simp add: fgets_def)

lemma eat_comments_eof_aux:
  assumes "eat_comments st = Some st'"
  shows "\<not> (mesh_file st = []
    \<and> (first_char (line st) = CHR ''#'' \<or> first_char (line st) = CHR 0x0A))"
proof (rule eat_comments.raw_induct
    [where P = "\<lambda>st st'. \<not> (mesh_file st = []
       \<and> (first_char (line st) = CHR ''#'' \<or> first_char (line st) = CHR 0x0A))",
     OF _ assms])
  fix f :: "('a, 'b) state \<Rightarrow> ('a, 'b) state option" and st st'
  assume IH: "\<And>x y. f x = Some y \<Longrightarrow>
      \<not> (mesh_file x = [] \<and> (first_char (line x) = CHR ''#'' \<or> first_char (line x) = CHR 0x0A))"
    and eq: "(let st' = fgets st
        in if first_char (line st') = CHR ''#'' \<or> first_char (line st') = CHR 0x0A
           then f st' else Some st') = Some st'"
  show "\<not> (mesh_file st = []
    \<and> (first_char (line st) = CHR ''#'' \<or> first_char (line st) = CHR 0x0A))"
  proof
    assume a: "mesh_file st = []
      \<and> (first_char (line st) = CHR ''#'' \<or> first_char (line st) = CHR 0x0A)"
    then have "fgets st = st" by (simp add: fgets_eof)
    with a eq have "f st = Some st'" by (auto simp add: Let_def)
    from IH [OF this] a show False by simp
  qed
qed

lemma eat_comments_eof:
  "mesh_file st = [] \<Longrightarrow> first_char (line st) = CHR ''#'' \<or> first_char (line st) = CHR 0x0A
    \<Longrightarrow> eat_comments st = None"
  using eat_comments_eof_aux [of st] by (cases "eat_comments st") auto

section \<open>What the sections keep and what they return\<close>

lemma fgets_fields:
  "V (fgets st) = V st" "T (fgets st) = T st" "F (fgets st) = F st"
  "is_open (fgets st) = is_open st" "str (fgets st) = str st"
  "number_of_vertices (fgets st) = number_of_vertices st"
  "number_of_triangles (fgets st) = number_of_triangles st"
  "number_of_tetrahedra (fgets st) = number_of_tetrahedra st"
  by (simp_all add: fgets_def Let_def split: prod.splits)

lemma eat_comments_same_data:
  assumes "eat_comments st = Some st'"
  shows "same_data st st'"
proof (rule eat_comments.raw_induct [where P = same_data, OF _ assms])
  fix f :: "('a, 'b) state \<Rightarrow> ('a, 'b) state option" and st st'
  assume IH: "\<And>x y. f x = Some y \<Longrightarrow> same_data x y"
    and eq: "(let st' = fgets st
        in if first_char (line st') = CHR ''#'' \<or> first_char (line st') = CHR 0x0A
           then f st' else Some st') = Some st'"
  show "same_data st st'"
  proof (cases "first_char (line (fgets st)) = CHR ''#'' \<or> first_char (line (fgets st)) = CHR 0x0A")
    case True
    with eq have "f (fgets st) = Some st'" by (simp add: Let_def)
    from IH [OF this] show ?thesis by (simp add: same_data_def fgets_fields)
  next
    case False
    with eq have "st' = fgets st" by (simp add: Let_def)
    then show ?thesis by (simp add: same_data_def fgets_fields)
  qed
qed

lemma expect_word_Inr:
  "expect_word w m st = Inr st' \<Longrightarrow> st' = st\<lparr>str := w\<rparr> \<and> sscanf_s (line st) (str st) = w"
  by (auto simp add: expect_word_def Let_def split: if_splits)

lemma expect_word_Inl:
  "expect_word w m st = Inl e \<Longrightarrow> \<exists>s st'. e = (Returned_false (m s), st') \<and> \<not> is_open st'"
  by (auto simp add: expect_word_def Let_def fclose_def split: if_splits)

lemma read_scalar_same_data: "read_scalar st = (v, st') \<Longrightarrow> same_data st st'"
  by (auto simp add: read_scalar_def same_data_def split: prod.splits if_splits)

lemma check_version_same_data: "check_version st = Inr st' \<Longrightarrow> same_data st st'"
  by (auto simp add: check_version_def same_data_def split: sum.splits prod.splits if_splits
      dest!: expect_word_Inr read_scalar_same_data)

lemma check_dimension_same_data: "check_dimension st = Inr st' \<Longrightarrow> same_data st st'"
  by (auto simp add: check_dimension_def same_data_def split: sum.splits prod.splits if_splits
      dest!: expect_word_Inr read_scalar_same_data)

lemma update3: "length r = 3 \<Longrightarrow> r[0 := x, Suc 0 := y, 2 := z] = [x, y, z]"
  by (cases r; cases "tl r"; cases "tl (tl r)"; cases "tl (tl (tl r))") (auto simp add: eval_nat_numeral)

lemma update4: "length r = 4 \<Longrightarrow> r[0 := x, Suc 0 := y, 2 := z, 3 := w] = [x, y, z, w]"
proof -
  assume "length r = 4"
  then obtain a b c d where "r = [a, b, c, d]"
    by (cases r; cases "tl r"; cases "tl (tl r)"; cases "tl (tl (tl r))"; cases "tl (tl (tl (tl r)))") auto
  then show ?thesis by (simp add: eval_nat_numeral)
qed

lemma take_Suc_update: "i < length xs \<Longrightarrow> take (Suc i) (xs[i := x]) = take i xs @ [x]"
  by (simp add: take_Suc_conv_app_nth)

lemma triangle_loop_rows:
  "triangle_loop to_index n i st = Inr st' \<Longrightarrow> i \<le> n \<Longrightarrow> n \<le> length (F st)
    \<Longrightarrow> list_all (\<lambda>r. length r = 3) (F st)
    \<Longrightarrow> F st' = take i (F st) @ map (face_row to_index) (triangle_records (n - i) (mesh_file st)) @ drop n (F st)
       \<and> length (triangle_records (n - i) (mesh_file st)) = n - i
       \<and> V st' = V st \<and> T st' = T st \<and> is_open st' = is_open st
       \<and> number_of_vertices st' = number_of_vertices st
       \<and> number_of_triangles st' = number_of_triangles st
       \<and> number_of_tetrahedra st' = number_of_tetrahedra st"
proof (induction to_index n i st rule: triangle_loop.induct)
  case (1 to_index n i st)
  show ?case
  proof (cases "i < n")
    case False
    with "1.prems" show ?thesis by (simp add: triangle_loop.simps)
  next
    case True
    from True "1.prems" obtain a b c e r where
      scan: "fscanf_ld4 (mesh_file st) = (Some (a, b, c, e), r)"
      by (cases "fscanf_ld4 (mesh_file st)"; cases "fst (fscanf_ld4 (mesh_file st))")
         (auto simp add: triangle_loop.simps)
    let ?row = "(F st ! i)[0 := to_index (a - 1), 1 := to_index (b - 1), 2 := to_index (c - 1)]"
    let ?st1 = "st\<lparr>mesh_file := r, F := (F st)[i := ?row]\<rparr>"
    from True "1.prems" have len: "length (F st ! i) = 3" by (simp add: list_all_length)
    have row: "?row = face_row to_index (a, b, c)"
      using len by (simp add: update3 face_row_def)
    from True scan "1.prems" have run: "triangle_loop to_index n (Suc i) ?st1 = Inr st'"
      by (simp add: triangle_loop.simps)
    have all: "list_all (\<lambda>r. length r = 3) (F ?st1)"
      using "1.prems" True len by (auto simp add: list_all_length nth_list_update)
    have recs: "triangle_records (n - i) (mesh_file st) = (a, b, c) # triangle_records (n - Suc i) r"
    proof -
      from True have "n - i = Suc (n - Suc i)" by simp
      with scan show ?thesis by simp
    qed
    from "1.IH" [OF True scan [symmetric] refl refl refl refl run] True "1.prems" all
    have IH: "F st' = take (Suc i) (F ?st1) @ map (face_row to_index) (triangle_records (n - Suc i) r) @ drop n (F ?st1)
       \<and> length (triangle_records (n - Suc i) r) = n - Suc i
       \<and> V st' = V st \<and> T st' = T st \<and> is_open st' = is_open st
       \<and> number_of_vertices st' = number_of_vertices st
       \<and> number_of_triangles st' = number_of_triangles st
       \<and> number_of_tetrahedra st' = number_of_tetrahedra st"
      by simp
    from True "1.prems" have "take (Suc i) (F ?st1) = take i (F st) @ [face_row to_index (a, b, c)]"
      using len by (simp add: take_Suc_update update3 face_row_def)
    moreover from True have "drop n (F ?st1) = drop n (F st)" by simp
    ultimately show ?thesis using IH recs True by simp
  qed
qed

lemma tetrahedron_loop_rows:
  "tetrahedron_loop to_index n i st = Inr st' \<Longrightarrow> i \<le> n \<Longrightarrow> n \<le> length (T st)
    \<Longrightarrow> list_all (\<lambda>r. length r = 4) (T st)
    \<Longrightarrow> T st' = take i (T st) @ map (tet_row to_index) (tetrahedron_records (n - i) (mesh_file st)) @ drop n (T st)
       \<and> length (tetrahedron_records (n - i) (mesh_file st)) = n - i
       \<and> V st' = V st \<and> F st' = F st \<and> is_open st' = is_open st
       \<and> number_of_vertices st' = number_of_vertices st
       \<and> number_of_triangles st' = number_of_triangles st
       \<and> number_of_tetrahedra st' = number_of_tetrahedra st"
proof (induction to_index n i st rule: tetrahedron_loop.induct)
  case (1 to_index n i st)
  show ?case
  proof (cases "i < n")
    case False
    with "1.prems" show ?thesis by (simp add: tetrahedron_loop.simps)
  next
    case True
    from True "1.prems" obtain a b c d e r where
      scan: "fscanf_ld5 (mesh_file st) = (Some (a, b, c, d, e), r)"
      by (cases "fscanf_ld5 (mesh_file st)"; cases "fst (fscanf_ld5 (mesh_file st))")
         (auto simp add: tetrahedron_loop.simps)
    let ?row = "(T st ! i)[0 := to_index (a - 1), 1 := to_index (b - 1), 2 := to_index (c - 1),
      3 := to_index (d - 1)]"
    let ?st1 = "st\<lparr>mesh_file := r, T := (T st)[i := ?row]\<rparr>"
    from True "1.prems" have len: "length (T st ! i) = 4" by (simp add: list_all_length)
    from True scan "1.prems" have run: "tetrahedron_loop to_index n (Suc i) ?st1 = Inr st'"
      by (simp add: tetrahedron_loop.simps)
    have all: "list_all (\<lambda>r. length r = 4) (T ?st1)"
      using "1.prems" True len by (auto simp add: list_all_length nth_list_update)
    have recs: "tetrahedron_records (n - i) (mesh_file st)
        = (a, b, c, d) # tetrahedron_records (n - Suc i) r"
    proof -
      from True have "n - i = Suc (n - Suc i)" by simp
      with scan show ?thesis by simp
    qed
    from "1.IH" [OF True scan [symmetric] refl refl refl refl refl run] True "1.prems" all
    have IH: "T st' = take (Suc i) (T ?st1) @ map (tet_row to_index) (tetrahedron_records (n - Suc i) r) @ drop n (T ?st1)
       \<and> length (tetrahedron_records (n - Suc i) r) = n - Suc i
       \<and> V st' = V st \<and> F st' = F st \<and> is_open st' = is_open st
       \<and> number_of_vertices st' = number_of_vertices st
       \<and> number_of_triangles st' = number_of_triangles st
       \<and> number_of_tetrahedra st' = number_of_tetrahedra st"
      by simp
    from True "1.prems" have "take (Suc i) (T ?st1) = take i (T st) @ [tet_row to_index (a, b, c, d)]"
      using len by (simp add: take_Suc_update update4 tet_row_def)
    moreover from True have "drop n (T ?st1) = drop n (T st)" by simp
    ultimately show ?thesis using IH recs True by simp
  qed
qed

lemma vertex_loop_rows:
  "vertex_loop scan_lg n i st = res \<Longrightarrow> i \<le> n \<Longrightarrow> n \<le> length (V st)
    \<Longrightarrow> list_all (\<lambda>r. length r = 3) (V st)
    \<Longrightarrow> (case res of
          Inr st' \<Rightarrow>
            length (vertex_records scan_lg (n - i) (mesh_file st)) = n - i
            \<and> V st' = take i (V st) @ vertex_records scan_lg (n - i) (mesh_file st) @ drop n (V st)
            \<and> T st' = T st \<and> F st' = F st \<and> is_open st' = is_open st
            \<and> number_of_vertices st' = number_of_vertices st
            \<and> number_of_triangles st' = number_of_triangles st
            \<and> number_of_tetrahedra st' = number_of_tetrahedra st
        | Inl (r, st') \<Rightarrow>
            length (vertex_records scan_lg (n - i) (mesh_file st)) < n - i
            \<and> r = Returned_false Expecting_vertex_position \<and> \<not> is_open st'
            \<and> V st' = take i (V st) @ vertex_records scan_lg (n - i) (mesh_file st)
                 @ drop (i + length (vertex_records scan_lg (n - i) (mesh_file st))) (V st)
            \<and> T st' = T st \<and> F st' = F st)"
proof (induction scan_lg n i st arbitrary: res rule: vertex_loop.induct)
  case (1 scan_lg n i st)
  show ?case
  proof (cases "i < n")
    case False
    with "1.prems" show ?thesis by (auto simp add: vertex_loop.simps)
  next
    case True
    have diff: "n - i = Suc (n - Suc i)" using True by simp
    show ?thesis
    proof (cases "fst (fscanf_lg3_ld scan_lg (mesh_file st))")
      case None
      then obtain r where scan: "fscanf_lg3_ld scan_lg (mesh_file st) = (None, r)"
        by (cases "fscanf_lg3_ld scan_lg (mesh_file st)") auto
      with True "1.prems" diff show ?thesis
        by (auto simp add: vertex_loop.simps fclose_def)
    next
      case (Some xyz)
      then obtain x y z r where scan: "fscanf_lg3_ld scan_lg (mesh_file st) = (Some (x, y, z), r)"
        by (cases "fscanf_lg3_ld scan_lg (mesh_file st)"; cases xyz) auto
      let ?row = "(V st ! i)[0 := x, 1 := y, 2 := z]"
      let ?st1 = "st\<lparr>mesh_file := r, V := (V st)[i := ?row]\<rparr>"
      from True "1.prems" have len: "length (V st ! i) = 3" by (simp add: list_all_length)
      from True scan "1.prems" have run: "vertex_loop scan_lg n (Suc i) ?st1 = res"
        by (simp add: vertex_loop.simps)
      have all: "list_all (\<lambda>r. length r = 3) (V ?st1)"
        using "1.prems" True len by (auto simp add: list_all_length nth_list_update)
      have recs: "vertex_records scan_lg (n - i) (mesh_file st)
          = [x, y, z] # vertex_records scan_lg (n - Suc i) r"
        using scan diff by simp
      have tk: "take (Suc i) (V ?st1) = take i (V st) @ [[x, y, z]]"
        using True "1.prems" len by (simp add: take_Suc_update update3)
      have dr: "\<And>k. i < k \<Longrightarrow> drop k (V ?st1) = drop k (V st)" by simp
      from "1.IH" [OF True scan [symmetric] refl refl refl run] True "1.prems" all
      have IH: "case res of
          Inr st' \<Rightarrow>
            length (vertex_records scan_lg (n - Suc i) r) = n - Suc i
            \<and> V st' = take (Suc i) (V ?st1) @ vertex_records scan_lg (n - Suc i) r @ drop n (V ?st1)
            \<and> T st' = T st \<and> F st' = F st \<and> is_open st' = is_open st
            \<and> number_of_vertices st' = number_of_vertices st
            \<and> number_of_triangles st' = number_of_triangles st
            \<and> number_of_tetrahedra st' = number_of_tetrahedra st
        | Inl (r', st') \<Rightarrow>
            length (vertex_records scan_lg (n - Suc i) r) < n - Suc i
            \<and> r' = Returned_false Expecting_vertex_position \<and> \<not> is_open st'
            \<and> V st' = take (Suc i) (V ?st1) @ vertex_records scan_lg (n - Suc i) r
                 @ drop (Suc i + length (vertex_records scan_lg (n - Suc i) r)) (V ?st1)
            \<and> T st' = T st \<and> F st' = F st"
        by (auto split: sum.splits prod.splits)
      show ?thesis
      proof (cases res)
        case (Inr st')
        with IH tk dr [OF True] recs True show ?thesis by simp
      next
        case (Inl e)
        obtain r' st' where e: "e = (r', st')" by (cases e)
        have "i < Suc i + length (vertex_records scan_lg (n - Suc i) r)" by simp
        from dr [OF this] IH Inl e tk recs True diff show ?thesis by simp
      qed
    qed
  qed
qed

lemma triangle_loop_Inl:
  "triangle_loop to_index n i st = Inl (r, st')
    \<Longrightarrow> r = Returned_false Expecting_triangle_indices \<and> is_open st' = is_open st"
proof (induction to_index n i st rule: triangle_loop.induct)
  case (1 to_index n i st)
  show ?case
  proof (cases "i < n")
    case False
    with "1.prems" show ?thesis by (subst (asm) triangle_loop.simps) simp
  next
    case True
    show ?thesis
    proof (cases "fst (fscanf_ld4 (mesh_file st))")
      case None
      then obtain q where "fscanf_ld4 (mesh_file st) = (None, q)"
        by (cases "fscanf_ld4 (mesh_file st)") auto
      with True "1.prems" show ?thesis by (subst (asm) triangle_loop.simps) auto
    next
      case (Some abce)
      then obtain a b c e q where scan: "fscanf_ld4 (mesh_file st) = (Some (a, b, c, e), q)"
        by (cases "fscanf_ld4 (mesh_file st)"; cases abce) auto
      with True "1.prems" have "triangle_loop to_index n (Suc i)
          (st\<lparr>mesh_file := q,
              F := (F st)[i := (F st ! i)[0 := to_index (a - 1), 1 := to_index (b - 1),
                                          2 := to_index (c - 1)]]\<rparr>) = Inl (r, st')"
        by (subst (asm) triangle_loop.simps) simp
      from "1.IH" [OF True scan [symmetric] refl refl refl refl this] show ?thesis by simp
    qed
  qed
qed

lemma tetrahedron_loop_Inl:
  "tetrahedron_loop to_index n i st = Inl (r, st')
    \<Longrightarrow> r = Returned_false Expecting_tetrahedra_indices \<and> \<not> is_open st'"
proof (induction to_index n i st rule: tetrahedron_loop.induct)
  case (1 to_index n i st)
  show ?case
  proof (cases "i < n")
    case False
    with "1.prems" show ?thesis by (subst (asm) tetrahedron_loop.simps) simp
  next
    case True
    show ?thesis
    proof (cases "fst (fscanf_ld5 (mesh_file st))")
      case None
      then obtain q where "fscanf_ld5 (mesh_file st) = (None, q)"
        by (cases "fscanf_ld5 (mesh_file st)") auto
      with True "1.prems" show ?thesis
        by (subst (asm) tetrahedron_loop.simps) (auto simp add: fclose_def)
    next
      case (Some abcde)
      then obtain a b c d e q where
        scan: "fscanf_ld5 (mesh_file st) = (Some (a, b, c, d, e), q)"
        by (cases "fscanf_ld5 (mesh_file st)"; cases abcde) auto
      with True "1.prems" have "tetrahedron_loop to_index n (Suc i)
          (st\<lparr>mesh_file := q,
              T := (T st)[i := (T st ! i)[0 := to_index (a - 1), 1 := to_index (b - 1),
                                          2 := to_index (c - 1), 3 := to_index (d - 1)]]\<rparr>)
            = Inl (r, st')"
        by (subst (asm) tetrahedron_loop.simps) simp
      from "1.IH" [OF True scan [symmetric] refl refl refl refl refl this] show ?thesis by simp
    qed
  qed
qed

lemma list_all_replicate: "list_all P (replicate n x) = (n = 0 \<or> P x)"
  by (induction n) auto

lemma read_vertices_result:
  assumes kw: "sscanf_s (line st) (str st) = ''Vertices''"
    and cnt: "scan_ld (mesh_file st) = (Some n, r)"
    and sz: "unat n \<le> vector_max_size"
    and emp: "V st = []"
  shows "case read_vertices scan_lg st of
      Inr st' \<Rightarrow>
        length (vertex_records scan_lg (unat n) r) = unat n
        \<and> V st' = vertex_records scan_lg (unat n) r
        \<and> T st' = T st \<and> F st' = F st \<and> is_open st' = is_open st
        \<and> number_of_vertices st' = n
        \<and> number_of_triangles st' = number_of_triangles st
        \<and> number_of_tetrahedra st' = number_of_tetrahedra st
    | Inl (res, st') \<Rightarrow>
        length (vertex_records scan_lg (unat n) r) < unat n
        \<and> res = Returned_false Expecting_vertex_position \<and> \<not> is_open st'
        \<and> V st' = vertex_records scan_lg (unat n) r
             @ replicate (unat n - length (vertex_records scan_lg (unat n) r)) (replicate 3 0)
        \<and> T st' = T st \<and> F st' = F st"
proof -
  let ?st2 = "st\<lparr>str := ''Vertices'', mesh_file := r, number_of_vertices := n,
    V := replicate (unat n) (replicate 3 0)\<rparr>"
  have rv: "read_vertices scan_lg st = vertex_loop scan_lg (unat n) 0 ?st2"
    using kw cnt sz emp by (simp add: read_vertices_def expect_word_def resize_def Let_def)
  have "list_all (\<lambda>r. length r = 3) (V ?st2)" by (simp add: list_all_replicate)
  from vertex_loop_rows [where scan_lg = scan_lg and n = "unat n" and i = 0 and st = ?st2,
      OF refl _ _ this]
  show ?thesis unfolding rv by (auto split: sum.splits prod.splits)
qed

lemma read_vertices_Inr:
  assumes "read_vertices scan_lg st = Inr st'" and emp: "V st = []"
  shows "length (V st') = unat (number_of_vertices st') \<and> list_all (\<lambda>r. length r = 3) (V st')
    \<and> T st' = T st \<and> F st' = F st \<and> is_open st' = is_open st
    \<and> number_of_triangles st' = number_of_triangles st
    \<and> number_of_tetrahedra st' = number_of_tetrahedra st"
proof -
  from assms(1) have kw: "sscanf_s (line st) (str st) = ''Vertices''"
    by (auto simp add: read_vertices_def expect_word_def Let_def split: if_splits)
  from assms(1) kw obtain n r where cnt: "scan_ld (mesh_file st) = (Some n, r)"
    by (cases "scan_ld (mesh_file st)"; cases "fst (scan_ld (mesh_file st))")
       (auto simp add: read_vertices_def expect_word_def Let_def)
  from assms(1) kw cnt have sz: "unat n \<le> vector_max_size"
    by (auto simp add: read_vertices_def expect_word_def Let_def split: if_splits)
  let ?st2 = "st\<lparr>str := ''Vertices'', mesh_file := r, number_of_vertices := n,
    V := replicate (unat n) (replicate 3 0)\<rparr>"
  have rv: "read_vertices scan_lg st = vertex_loop scan_lg (unat n) 0 ?st2"
    using kw cnt sz emp by (simp add: read_vertices_def expect_word_def resize_def Let_def)
  have all: "list_all (\<lambda>r. length r = 3) (V ?st2)" by (simp add: list_all_replicate)
  from read_vertices_result [OF kw cnt sz emp, of scan_lg] assms(1)
  have *: "length (vertex_records scan_lg (unat n) r) = unat n"
    "V st' = vertex_records scan_lg (unat n) r" "number_of_vertices st' = n"
    "T st' = T st \<and> F st' = F st \<and> is_open st' = is_open st
      \<and> number_of_triangles st' = number_of_triangles st
      \<and> number_of_tetrahedra st' = number_of_tetrahedra st"
    by simp_all
  have "list_all (\<lambda>r. length r = 3) (vertex_records scan_lg k inp)" for k inp
    by (induction k arbitrary: inp) (auto split: prod.splits option.splits)
  with * show ?thesis by simp
qed

lemma read_triangles_Inr:
  assumes run: "read_triangles to_index st = Inr st'" and emp: "F st = []"
  shows "\<exists>n r. scan_ld (mesh_file st) = (Some n, r) \<and> number_of_triangles st' = n
    \<and> length (triangle_records (unat n) r) = unat n
    \<and> F st' = map (face_row to_index) (triangle_records (unat n) r)
    \<and> V st' = V st \<and> T st' = T st \<and> is_open st' = is_open st
    \<and> number_of_vertices st' = number_of_vertices st
    \<and> number_of_tetrahedra st' = number_of_tetrahedra st"
proof -
  from run have kw: "sscanf_s (line st) (str st) = ''Triangles''"
    by (auto simp add: read_triangles_def expect_word_def Let_def split: if_splits)
  from run kw obtain n r where cnt: "scan_ld (mesh_file st) = (Some n, r)"
    by (cases "scan_ld (mesh_file st)"; cases "fst (scan_ld (mesh_file st))")
       (auto simp add: read_triangles_def expect_word_def Let_def)
  from run kw cnt have sz: "unat n \<le> vector_max_size"
    by (auto simp add: read_triangles_def expect_word_def Let_def split: if_splits)
  let ?st2 = "st\<lparr>str := ''Triangles'', mesh_file := r, number_of_triangles := n,
    F := replicate (unat n) (replicate 3 0)\<rparr>"
  have "read_triangles to_index st = triangle_loop to_index (unat n) 0 ?st2"
    using kw cnt sz emp by (simp add: read_triangles_def expect_word_def resize_def Let_def)
  with run have loop: "triangle_loop to_index (unat n) 0 ?st2 = Inr st'" by simp
  have "list_all (\<lambda>r. length r = 3) (F ?st2)" by (simp add: list_all_replicate)
  from triangle_loop_rows [OF loop _ _ this] cnt show ?thesis by simp
qed

lemma read_tetrahedra_Inr:
  assumes run: "read_tetrahedra to_index st = Inr st'" and emp: "T st = []"
  shows "\<exists>n r. scan_ld (mesh_file st) = (Some n, r) \<and> number_of_tetrahedra st' = n
    \<and> length (tetrahedron_records (unat n) r) = unat n
    \<and> T st' = map (tet_row to_index) (tetrahedron_records (unat n) r)
    \<and> V st' = V st \<and> F st' = F st \<and> is_open st' = is_open st
    \<and> number_of_vertices st' = number_of_vertices st
    \<and> number_of_triangles st' = number_of_triangles st"
proof -
  from run have kw: "sscanf_s (line st) (str st) = ''Tetrahedra''"
    by (auto simp add: read_tetrahedra_def expect_word_def Let_def split: if_splits)
  from run kw obtain n r where cnt: "scan_ld (mesh_file st) = (Some n, r)"
    by (cases "scan_ld (mesh_file st)"; cases "fst (scan_ld (mesh_file st))")
       (auto simp add: read_tetrahedra_def expect_word_def Let_def)
  from run kw cnt have sz: "unat n \<le> vector_max_size"
    by (auto simp add: read_tetrahedra_def expect_word_def Let_def split: if_splits)
  let ?st2 = "st\<lparr>str := ''Tetrahedra'', mesh_file := r, number_of_tetrahedra := n,
    T := replicate (unat n) (replicate 4 0)\<rparr>"
  have "read_tetrahedra to_index st = tetrahedron_loop to_index (unat n) 0 ?st2"
    using kw cnt sz emp by (simp add: read_tetrahedra_def expect_word_def resize_def Let_def)
  with run have loop: "tetrahedron_loop to_index (unat n) 0 ?st2 = Inr st'" by simp
  have "list_all (\<lambda>r. length r = 4) (T ?st2)" by (simp add: list_all_replicate)
  from tetrahedron_loop_rows [OF loop _ _ this] cnt show ?thesis by simp
qed

lemma section_of_Inr:
  "section_of check st = Some (Inr st') \<Longrightarrow> \<exists>s. eat_comments st = Some s \<and> same_data st s \<and> check s = Inr st'"
  by (auto simp add: section_of_def dest: eat_comments_same_data)

lemma and_then_Inr:
  "and_then m f = Some (Inr b) \<Longrightarrow> \<exists>a. m = Some (Inr a) \<and> f a = Some (Inr b)"
  by (auto simp add: and_then_def split: option.splits sum.splits)

lemma opened_fields:
  "V (opened c st) = []" "T (opened c st) = []" "F (opened c st) = []"
  by (simp_all add: opened_def)

lemma sections_Inr:
  assumes "sections scan_lg to_index st = Some (Inr st')"
    and "V st = []" "T st = []" "F st = []"
  shows "length (V st') = unat (number_of_vertices st')
    \<and> length (F st') = unat (number_of_triangles st')
    \<and> length (T st') = unat (number_of_tetrahedra st')
    \<and> list_all (\<lambda>r. length r = 3) (V st')
    \<and> list_all (\<lambda>r. length r = 3) (F st')
    \<and> list_all (\<lambda>r. length r = 4) (T st')"
proof -
  from assms(1) obtain s4 where
    a4: "and_then (and_then (and_then (section_of check_version st) (section_of check_dimension))
      (section_of (read_vertices scan_lg))) (section_of (read_triangles to_index)) = Some (Inr s4)"
    and b4: "section_of (read_tetrahedra to_index) s4 = Some (Inr st')"
    unfolding sections_def by (blast dest: and_then_Inr)
  from a4 obtain s3 where
    a3: "and_then (and_then (section_of check_version st) (section_of check_dimension))
      (section_of (read_vertices scan_lg)) = Some (Inr s3)"
    and b3: "section_of (read_triangles to_index) s3 = Some (Inr s4)"
    by (blast dest: and_then_Inr)
  from a3 obtain s2 where
    a2: "and_then (section_of check_version st) (section_of check_dimension) = Some (Inr s2)"
    and b2: "section_of (read_vertices scan_lg) s2 = Some (Inr s3)"
    by (blast dest: and_then_Inr)
  from a2 obtain s1 where
    a1: "section_of check_version st = Some (Inr s1)"
    and b1: "section_of check_dimension s1 = Some (Inr s2)"
    by (blast dest: and_then_Inr)
  from a1 obtain e1 where "same_data st e1" "check_version e1 = Inr s1"
    by (blast dest: section_of_Inr)
  with assms have d1: "V s1 = [] \<and> T s1 = [] \<and> F s1 = []"
    by (auto dest!: check_version_same_data simp add: same_data_def)
  from b1 obtain e2 where "same_data s1 e2" "check_dimension e2 = Inr s2"
    by (blast dest: section_of_Inr)
  with d1 have d2: "V s2 = [] \<and> T s2 = [] \<and> F s2 = []"
    by (auto dest!: check_dimension_same_data simp add: same_data_def)
  from b2 obtain e3 where e3: "same_data s2 e3" "read_vertices scan_lg e3 = Inr s3"
    by (blast dest: section_of_Inr)
  with d2 have "V e3 = []" by (simp add: same_data_def)
  from read_vertices_Inr [OF e3(2) this] e3(1) d2
  have d3: "length (V s3) = unat (number_of_vertices s3) \<and> list_all (\<lambda>r. length r = 3) (V s3)
    \<and> T s3 = [] \<and> F s3 = []"
    by (simp add: same_data_def)
  from b3 obtain e4 where e4: "same_data s3 e4" "read_triangles to_index e4 = Inr s4"
    by (blast dest: section_of_Inr)
  with d3 have "F e4 = []" by (simp add: same_data_def)
  from read_triangles_Inr [OF e4(2) this] e4(1) d3
  have d4: "length (V s4) = unat (number_of_vertices s4) \<and> list_all (\<lambda>r. length r = 3) (V s4)
    \<and> T s4 = [] \<and> length (F s4) = unat (number_of_triangles s4)
    \<and> list_all (\<lambda>r. length r = 3) (F s4)"
    by (auto simp add: same_data_def list_all_iff face_row_def split: prod.splits)
  from b4 obtain e5 where e5: "same_data s4 e5" "read_tetrahedra to_index e5 = Inr st'"
    by (blast dest: section_of_Inr)
  with d4 have "T e5 = []" by (simp add: same_data_def)
  from read_tetrahedra_Inr [OF e5(2) this] e5(1) d4
  show ?thesis
    by (auto simp add: same_data_def list_all_iff tet_row_def split: prod.splits)
qed

lemma list_to_matrix_uniform:
  "list_all (\<lambda>r. length r = k) vs \<Longrightarrow> fst (list_to_matrix cast vs M)"
  by (cases vs) (auto simp add: list_to_matrix_def list_all_iff)

lemma vertex_loop_Inl:
  "vertex_loop scan_lg n i st = Inl (r, st')
    \<Longrightarrow> r = Returned_false Expecting_vertex_position \<and> \<not> is_open st'"
proof (induction scan_lg n i st rule: vertex_loop.induct)
  case (1 scan_lg n i st)
  show ?case
  proof (cases "i < n")
    case False
    with "1.prems" show ?thesis by (subst (asm) vertex_loop.simps) simp
  next
    case True
    show ?thesis
    proof (cases "fst (fscanf_lg3_ld scan_lg (mesh_file st))")
      case None
      then obtain q where "fscanf_lg3_ld scan_lg (mesh_file st) = (None, q)"
        by (cases "fscanf_lg3_ld scan_lg (mesh_file st)") auto
      with True "1.prems" show ?thesis
        by (subst (asm) vertex_loop.simps) (auto simp add: fclose_def)
    next
      case (Some xyz)
      then obtain x y z q where scan: "fscanf_lg3_ld scan_lg (mesh_file st) = (Some (x, y, z), q)"
        by (cases "fscanf_lg3_ld scan_lg (mesh_file st)"; cases xyz) auto
      with True "1.prems" have "vertex_loop scan_lg n (Suc i)
          (st\<lparr>mesh_file := q, V := (V st)[i := (V st ! i)[0 := x, 1 := y, 2 := z]]\<rparr>)
            = Inl (r, st')"
        by (subst (asm) vertex_loop.simps) simp
      from "1.IH" [OF True scan [symmetric] refl refl refl this] show ?thesis by simp
    qed
  qed
qed

lemma check_version_Inl:
  "check_version st = Inl (r, st') \<Longrightarrow>
     ((\<exists>s. r = Returned_false (First_word s)) \<or> (\<exists>k. r = Returned_false (Second_word k)))
     \<and> \<not> is_open st'"
  by (auto simp add: check_version_def expect_word_def fclose_def Let_def
      split: sum.splits prod.splits if_splits)

lemma check_dimension_Inl:
  "check_dimension st = Inl (r, st') \<Longrightarrow>
     ((\<exists>s. r = Returned_false (Third_word s)) \<or> (\<exists>k. r = Returned_false (Dimension_not k)))
     \<and> \<not> is_open st'"
  by (auto simp add: check_dimension_def expect_word_def fclose_def Let_def
      split: sum.splits prod.splits if_splits)

lemma read_vertices_Inl:
  "read_vertices scan_lg st = Inl (r, st') \<Longrightarrow>
     (\<exists>s. r = Returned_false (Fifth_word s)) \<or> r = Returned_false Expecting_number_of_vertices
     \<or> r = Threw_length_error \<or> r = Returned_false Expecting_vertex_position"
  by (auto simp add: read_vertices_def expect_word_def Let_def
      split: sum.splits prod.splits if_splits option.splits dest: vertex_loop_Inl)

lemma read_triangles_Inl:
  "read_triangles to_index st = Inl (r, st') \<Longrightarrow>
     (\<exists>s. r = Returned_false (Sixth_word s)) \<or> r = Returned_false Expecting_number_of_triangles
     \<or> r = Threw_length_error \<or> r = Returned_false Expecting_triangle_indices"
  by (auto simp add: read_triangles_def expect_word_def Let_def
      split: sum.splits prod.splits if_splits option.splits dest: triangle_loop_Inl)

lemma read_tetrahedra_Inl:
  "read_tetrahedra to_index st = Inl (r, st') \<Longrightarrow>
     (\<exists>s. r = Returned_false (Seventh_word s)) \<or> r = Returned_false Expecting_number_of_tetrahedra
     \<or> r = Threw_length_error \<or> r = Returned_false Expecting_tetrahedra_indices"
  by (auto simp add: read_tetrahedra_def expect_word_def Let_def
      split: sum.splits prod.splits if_splits option.splits dest: tetrahedron_loop_Inl)

lemma and_then_Inl:
  "and_then m f = Some (Inl e) \<Longrightarrow> m = Some (Inl e) \<or> (\<exists>a. m = Some (Inr a) \<and> f a = Some (Inl e))"
  by (auto simp add: and_then_def split: option.splits sum.splits)

lemma section_of_Inl:
  "section_of check st = Some (Inl e) \<Longrightarrow> \<exists>s. eat_comments st = Some s \<and> check s = Inl e"
  by (auto simp add: section_of_def)

lemma sections_Inl:
  assumes "sections scan_lg to_index st = Some (Inl (r, st'))"
  shows "r \<noteq> Returned_true"
proof -
  from assms consider
    s where "check_version s = Inl (r, st')"
    | s where "check_dimension s = Inl (r, st')"
    | s where "read_vertices scan_lg s = Inl (r, st')"
    | s where "read_triangles to_index s = Inl (r, st')"
    | s where "read_tetrahedra to_index s = Inl (r, st')"
    unfolding sections_def by (blast dest: and_then_Inl section_of_Inl)
  then show ?thesis
    by cases (auto dest: check_version_Inl check_dimension_Inl read_vertices_Inl
        read_triangles_Inl read_tetrahedra_Inl)
qed

lemma sint_64_cases:
  fixes k :: "64 word"
  shows "sint k = (if uint k < 2 ^ 63 then uint k else uint k - 2 ^ 64)"
proof -
  have b: "0 \<le> uint k" "uint k < 2 ^ 64" using uint_lt2p [of k] by simp_all
  have "sint k = (uint k + 2 ^ 63) mod 2 ^ 64 - 2 ^ 63"
    by (simp add: sint_uint signed_take_bit_eq_take_bit_shift take_bit_eq_mod)
  also have "\<dots> = (if uint k < 2 ^ 63 then uint k else uint k - 2 ^ 64)"
  proof (cases "uint k < 2 ^ 63")
    case True
    with b have "(uint k + 2 ^ 63) mod 2 ^ 64 = uint k + 2 ^ 63" by simp
    with True show ?thesis by simp
  next
    case False
    with b have "(uint k + 2 ^ 63) mod 2 ^ 64 = uint k + 2 ^ 63 - 2 ^ 64"
      using mod_pos_pos_trivial [of "uint k + 2 ^ 63 - 2 ^ 64" "2 ^ 64"]
        mod_add_self2 [of "uint k + 2 ^ 63 - 2 ^ 64" "2 ^ 64"]
      by (simp add: add.commute)
    with False show ?thesis by simp
  qed
  finally show ?thesis .
qed

lemma rebase_no_wrap:
  fixes k :: "64 word"
  assumes "1 \<le> sint k"
  shows "uint (k - 1) = sint k - 1"
proof -
  have "uint k < 2 ^ 64" using uint_lt2p [of k] by simp
  with assms have "sint k = uint k" by (simp add: sint_64_cases split: if_splits)
  with assms show ?thesis by (simp add: uint_sub_if')
qed

lemma scenario_run:
  "readMESH scan_lg_decimal to_index (Some scenario_file) st0
     = Some (Returned_true,
         st0\<lparr>V := [[0, 0, 0], [1, 0, 0], [0, 1, 0], [0, 0, 1]],
             T := [[to_index 0, to_index 1, to_index 2, to_index 3]],
             F := [[to_index 0, to_index 1, to_index 2]],
             mesh_file := ''\<newline>'', is_open := False,
             line := ''Tetrahedra\<newline>'', str := ''Tetrahedra'',
             number_of_vertices := 4, number_of_triangles := 1, number_of_tetrahedra := 1\<rparr>)"
  unfolding scenario_file_def
  by (simp add: scan_defs run_defs Let_def) (simp add: eval_nat_numeral)

lemma scan_ld_None: "fst (scan_ld inp) = None \<longleftrightarrow> fst (scan_integer inp) = None"
  by (cases "scan_integer inp") (simp add: scan_ld_def)

lemma unat_minus_1_64: "unat (- 1 :: 64 word) = 18446744073709551615"
  by (simp add: unsigned_minus_1_eq_mask mask_eq_exp_minus_1)

lemma read_scalar_keyword_value:
  "read_scalar st = (v, st') \<Longrightarrow>
     v = (case fst (keyword_value st) of None \<Rightarrow> - 1 | Some w \<Rightarrow> w)
     \<and> mesh_file st' = snd (keyword_value st)"
  by (auto simp add: read_scalar_def keyword_value_def same_line_value_def next_token_value_def
      sscanf_s_d_def split: option.splits prod.splits if_splits)

lemma take_line_upto_newline:
  "CHR 0x0A \<notin> set body \<Longrightarrow> length body < n
    \<Longrightarrow> take_line n (body @ CHR 0x0A # rest) = (body @ [CHR 0x0A], rest)"
proof (induction body arbitrary: n)
  case Nil
  then show ?case by simp
next
  case (Cons c body)
  then have "length body < n - 1" "c \<noteq> CHR 0x0A" "n \<noteq> 0" by auto
  with Cons show ?case by simp
qed

lemma fgets_comment_line:
  assumes "comment_line l"
  shows "fgets (st\<lparr>mesh_file := l @ rest\<rparr>) = st\<lparr>mesh_file := rest, line := l\<rparr>"
proof -
  from assms have l: "l = butlast l @ [CHR 0x0A]"
    by (metis append_butlast_last_id comment_line_def)
  from assms have "l \<noteq> []" "length l < LINE_MAX" by (simp_all add: comment_line_def)
  then have "length (butlast l) < LINE_MAX - 1" by (cases l) (simp_all add: LINE_MAX_def)
  moreover from assms have "CHR 0x0A \<notin> set (butlast l)" by (simp add: comment_line_def)
  ultimately have "take_line (LINE_MAX - 1) (butlast l @ CHR 0x0A # rest)
      = (butlast l @ [CHR 0x0A], rest)"
    by (rule take_line_upto_newline [rotated])
  moreover have "butlast l @ CHR 0x0A # rest = l @ rest" using l
    by (metis append.assoc append_Cons append_Nil)
  ultimately have "take_line (LINE_MAX - 1) (l @ rest) = (l, rest)" using l by simp
  moreover from assms have "l \<noteq> []" by (simp add: comment_line_def)
  ultimately show ?thesis by (simp add: fgets_def)
qed

lemma comment_line_first_char:
  "comment_line l \<Longrightarrow> first_char l = CHR ''#'' \<or> first_char l = CHR 0x0A"
  by (cases l) (auto simp add: comment_line_def first_char_def)

lemma fgets_line_irrelevant:
  "mesh_file st \<noteq> [] \<Longrightarrow> fgets (st\<lparr>line := x\<rparr>) = fgets st"
  by (simp add: fgets_def split: prod.splits)

lemma eat_comments_line_irrelevant:
  "mesh_file st \<noteq> [] \<Longrightarrow> eat_comments (st\<lparr>line := x\<rparr>) = eat_comments st"
  by (subst (1 2) eat_comments.simps) (simp add: fgets_line_irrelevant)

lemma eat_comments_one_comment_line:
  assumes "comment_line l" and "mesh_file st \<noteq> []"
  shows "eat_comments (st\<lparr>mesh_file := l @ mesh_file st\<rparr>) = eat_comments st"
proof -
  have "fgets (st\<lparr>mesh_file := l @ mesh_file st\<rparr>) = st\<lparr>line := l\<rparr>"
    by (simp add: fgets_comment_line [OF assms(1)])
  then have "eat_comments (st\<lparr>mesh_file := l @ mesh_file st\<rparr>) = eat_comments (st\<lparr>line := l\<rparr>)"
    using comment_line_first_char [OF assms(1)]
    by (subst eat_comments.simps) simp
  also have "\<dots> = eat_comments st"
    by (rule eat_comments_line_irrelevant [OF assms(2)])
  finally show ?thesis .
qed

lemma eat_comments_comment_lines:
  "list_all comment_line ls \<Longrightarrow> mesh_file st \<noteq> []
    \<Longrightarrow> eat_comments (st\<lparr>mesh_file := concat ls @ mesh_file st\<rparr>) = eat_comments st"
proof (induction ls)
  case Nil
  then show ?case by simp
next
  case (Cons l ls)
  let ?st = "st\<lparr>mesh_file := concat ls @ mesh_file st\<rparr>"
  from Cons have ne: "mesh_file ?st \<noteq> []" by simp
  from Cons have "comment_line l" by simp
  from eat_comments_one_comment_line [OF this ne]
  have "eat_comments (st\<lparr>mesh_file := concat (l # ls) @ mesh_file st\<rparr>) = eat_comments ?st"
    by simp
  with Cons show ?case by simp
qed

lemma list_to_matrix_cols:
  "list_to_matrix cast vs M = (True, M') \<Longrightarrow> r \<in> set vs \<Longrightarrow> length r = cols M'"
  by (cases vs) (auto simp add: list_to_matrix_def list_all_iff split: if_splits)

lemma readMESH_true_shapes:
  assumes "readMESH scan_lg to_index file st0 = Some (Returned_true, st)"
  shows "length (V st) = unat (number_of_vertices st)
    \<and> length (F st) = unat (number_of_triangles st)
    \<and> length (T st) = unat (number_of_tetrahedra st)
    \<and> list_all (\<lambda>r. length r = 3) (V st)
    \<and> list_all (\<lambda>r. length r = 3) (F st)
    \<and> list_all (\<lambda>r. length r = 4) (T st)"
proof -
  from assms obtain content st' where
    "sections scan_lg to_index (opened content st0) = Some (Inr st')" and "st = fclose st'"
    by (auto simp add: readMESH_def finish_def split: option.splits sum.splits dest: sections_Inl)
  from sections_Inr [OF this(1) opened_fields] this(2)
  show ?thesis by (simp add: fclose_def)
qed

lemma to_matrices_uniform:
  assumes "list_all (\<lambda>r. length r = 3) vV" "list_all (\<lambda>r. length r = 4) vT"
    "list_all (\<lambda>r. length r = 3) vF"
  shows "fst (to_matrices cast_d cast_i (vV, vT, vF) out) \<noteq> Eigen_false"
proof -
  obtain Vm Tm Fm where out: "out = (Vm, Tm, Fm)" by (cases out)
  from assms have "fst (list_to_matrix cast_d vV Vm)" "fst (list_to_matrix cast_i vT Tm)"
    "fst (list_to_matrix cast_i vF Fm)"
    by (simp_all add: list_to_matrix_uniform)
  then show ?thesis
    by (auto simp add: to_matrices_def out split: prod.splits)
qed

lemmas before_defs = before_vertices_def before_triangles_def before_tetrahedra_def

lemma before_vertices_sections:
  assumes "before_vertices content st0 = Some st"
  shows "sections scan_lg to_index (opened content st0)
      = and_then (and_then (Some (read_vertices scan_lg st))
          (section_of (read_triangles to_index))) (section_of (read_tetrahedra to_index))"
    and "V st = []" and "T st = []" and "F st = []"
proof -
  from assms obtain s2 where
    a2: "and_then (section_of check_version (opened content st0)) (section_of check_dimension)
      = Some (Inr s2)" and e: "eat_comments s2 = Some st"
    by (auto simp add: before_vertices_def split: option.splits sum.splits)
  from e show "sections scan_lg to_index (opened content st0)
      = and_then (and_then (Some (read_vertices scan_lg st))
          (section_of (read_triangles to_index))) (section_of (read_tetrahedra to_index))"
    unfolding sections_def a2 by (simp add: and_then_def section_of_def)
  from a2 obtain s1 where
    a1: "section_of check_version (opened content st0) = Some (Inr s1)"
    and b1: "section_of check_dimension s1 = Some (Inr s2)"
    by (blast dest: and_then_Inr)
  from a1 obtain e1 where "same_data (opened content st0) e1" "check_version e1 = Inr s1"
    by (blast dest: section_of_Inr)
  then have d1: "V s1 = [] \<and> T s1 = [] \<and> F s1 = []"
    by (auto dest!: check_version_same_data simp add: same_data_def opened_fields)
  from b1 obtain e2 where "same_data s1 e2" "check_dimension e2 = Inr s2"
    by (blast dest: section_of_Inr)
  with d1 have "V s2 = [] \<and> T s2 = [] \<and> F s2 = []"
    by (auto dest!: check_dimension_same_data simp add: same_data_def)
  with eat_comments_same_data [OF e] show "V st = []" "T st = []" "F st = []"
    by (simp_all add: same_data_def)
qed

lemma before_triangles_sections:
  assumes "before_triangles scan_lg content st0 = Some st"
  shows "sections scan_lg to_index (opened content st0)
      = and_then (Some (read_triangles to_index st)) (section_of (read_tetrahedra to_index))"
    and "T st = []" and "F st = []"
proof -
  from assms obtain s3 s3' where
    bv: "before_vertices content st0 = Some s3" and rv: "read_vertices scan_lg s3 = Inr s3'"
    and e: "eat_comments s3' = Some st"
    by (auto simp add: before_triangles_def split: option.splits sum.splits)
  from before_vertices_sections(1) [OF bv, of scan_lg to_index] rv e
  show "sections scan_lg to_index (opened content st0)
      = and_then (Some (read_triangles to_index st)) (section_of (read_tetrahedra to_index))"
    by (simp add: and_then_def section_of_def)
  from read_vertices_Inr [OF rv before_vertices_sections(2) [OF bv]]
    before_vertices_sections(3,4) [OF bv] eat_comments_same_data [OF e]
  show "T st = []" "F st = []" by (simp_all add: same_data_def)
qed

lemma before_tetrahedra_sections:
  assumes "before_tetrahedra scan_lg to_index content st0 = Some st"
  shows "sections scan_lg to_index (opened content st0) = Some (read_tetrahedra to_index st)"
    and "T st = []"
proof -
  from assms obtain s4 s4' where
    bt: "before_triangles scan_lg content st0 = Some s4" and rt: "read_triangles to_index s4 = Inr s4'"
    and e: "eat_comments s4' = Some st"
    by (auto simp add: before_tetrahedra_def split: option.splits sum.splits)
  from before_triangles_sections(1) [OF bt, of to_index] rt e
  show "sections scan_lg to_index (opened content st0) = Some (read_tetrahedra to_index st)"
    by (simp add: and_then_def section_of_def)
  from read_triangles_Inr [OF rt before_triangles_sections(3) [OF bt]]
    before_triangles_sections(2) [OF bt] eat_comments_same_data [OF e]
  show "T st = []" by (auto simp add: same_data_def)
qed

lemma sections_Inr_chain:
  assumes "sections scan_lg to_index (opened content st0) = Some (Inr st')"
  shows "\<exists>s4 s4' s5. before_triangles scan_lg content st0 = Some s4
    \<and> read_triangles to_index s4 = Inr s4'
    \<and> before_tetrahedra scan_lg to_index content st0 = Some s5
    \<and> same_data s4' s5
    \<and> read_tetrahedra to_index s5 = Inr st'"
proof -
  from assms obtain s4' where
    a4: "and_then (and_then (and_then (section_of check_version (opened content st0))
      (section_of check_dimension)) (section_of (read_vertices scan_lg)))
      (section_of (read_triangles to_index)) = Some (Inr s4')"
    and b4: "section_of (read_tetrahedra to_index) s4' = Some (Inr st')"
    unfolding sections_def by (blast dest: and_then_Inr)
  from a4 obtain s3' where
    a3: "and_then (and_then (section_of check_version (opened content st0))
      (section_of check_dimension)) (section_of (read_vertices scan_lg)) = Some (Inr s3')"
    and b3: "section_of (read_triangles to_index) s3' = Some (Inr s4')"
    by (blast dest: and_then_Inr)
  from a3 obtain s2 where
    a2: "and_then (section_of check_version (opened content st0)) (section_of check_dimension)
      = Some (Inr s2)"
    and b2: "section_of (read_vertices scan_lg) s2 = Some (Inr s3')"
    by (blast dest: and_then_Inr)
  from b2 obtain s3 where s3: "eat_comments s2 = Some s3" "read_vertices scan_lg s3 = Inr s3'"
    by (blast dest: section_of_Inr)
  from b3 obtain s4 where s4: "eat_comments s3' = Some s4" "read_triangles to_index s4 = Inr s4'"
    by (blast dest: section_of_Inr)
  from b4 obtain s5 where s5: "eat_comments s4' = Some s5" "read_tetrahedra to_index s5 = Inr st'"
    by (blast dest: section_of_Inr)
  have bv: "before_vertices content st0 = Some s3" by (simp add: before_vertices_def a2 s3)
  have bt: "before_triangles scan_lg content st0 = Some s4"
    by (simp add: before_triangles_def bv s3 s4)
  have bh: "before_tetrahedra scan_lg to_index content st0 = Some s5"
    by (simp add: before_tetrahedra_def bt s4 s5)
  from bt bh s4 s5 eat_comments_same_data [OF s5(1)] show ?thesis by blast
qed

lemma readMESH_true_run:
  assumes "readMESH scan_lg to_index (Some content) st0 = Some (Returned_true, st)"
  shows "\<exists>s4 s4' s5 s6. before_triangles scan_lg content st0 = Some s4
    \<and> read_triangles to_index s4 = Inr s4' \<and> F s4 = []
    \<and> before_tetrahedra scan_lg to_index content st0 = Some s5
    \<and> read_tetrahedra to_index s5 = Inr s6 \<and> T s5 = []
    \<and> F st = F s4' \<and> T st = T s6"
proof -
  from assms obtain s6 where
    run: "sections scan_lg to_index (opened content st0) = Some (Inr s6)" and st: "st = fclose s6"
    by (auto simp add: readMESH_def finish_def split: option.splits sum.splits dest: sections_Inl)
  from sections_Inr_chain [OF run] obtain s4 s4' s5 where
    c: "before_triangles scan_lg content st0 = Some s4" "read_triangles to_index s4 = Inr s4'"
      "before_tetrahedra scan_lg to_index content st0 = Some s5" "same_data s4' s5"
      "read_tetrahedra to_index s5 = Inr s6"
    by blast
  note e = before_triangles_sections(3) [OF c(1)] before_tetrahedra_sections(2) [OF c(3)]
  from read_tetrahedra_Inr [OF c(5) e(2)] c(4) st have "F st = F s4'" "T st = T s6"
    by (auto simp add: same_data_def fclose_def)
  with c e show ?thesis by blast
qed

lemma count_message_iff:
  "(sscanf_s (line st) (str st) = ''Vertices'' \<longrightarrow>
      ((\<exists>st'. read_vertices scan_lg st = Inl (Returned_false Expecting_number_of_vertices, st'))
        \<longleftrightarrow> fst (scan_integer (mesh_file st)) = None))
   \<and> (sscanf_s (line st) (str st) = ''Triangles'' \<longrightarrow>
      ((\<exists>st'. read_triangles to_index st = Inl (Returned_false Expecting_number_of_triangles, st'))
        \<longleftrightarrow> fst (scan_integer (mesh_file st)) = None))
   \<and> (sscanf_s (line st) (str st) = ''Tetrahedra'' \<longrightarrow>
      ((\<exists>st'. read_tetrahedra to_index st = Inl (Returned_false Expecting_number_of_tetrahedra, st'))
        \<longleftrightarrow> fst (scan_integer (mesh_file st)) = None))"
proof (intro conjI impI)
  assume kw: "sscanf_s (line st) (str st) = ''Vertices''"
  show "(\<exists>st'. read_vertices scan_lg st = Inl (Returned_false Expecting_number_of_vertices, st'))
        \<longleftrightarrow> fst (scan_integer (mesh_file st)) = None"
  proof (cases "fst (scan_ld (mesh_file st))")
    case None
    then obtain r where "scan_ld (mesh_file st) = (None, r)"
      by (cases "scan_ld (mesh_file st)") auto
    with kw None show ?thesis
      by (simp add: read_vertices_def expect_word_def Let_def scan_ld_None [symmetric])
  next
    case (Some n)
    then obtain r where "scan_ld (mesh_file st) = (Some n, r)"
      by (cases "scan_ld (mesh_file st)") auto
    with kw Some show ?thesis
      by (auto simp add: read_vertices_def expect_word_def Let_def scan_ld_None [symmetric]
          split: if_splits dest: vertex_loop_Inl)
  qed
next
  assume kw: "sscanf_s (line st) (str st) = ''Triangles''"
  show "(\<exists>st'. read_triangles to_index st = Inl (Returned_false Expecting_number_of_triangles, st'))
        \<longleftrightarrow> fst (scan_integer (mesh_file st)) = None"
  proof (cases "fst (scan_ld (mesh_file st))")
    case None
    then obtain r where "scan_ld (mesh_file st) = (None, r)"
      by (cases "scan_ld (mesh_file st)") auto
    with kw None show ?thesis
      by (simp add: read_triangles_def expect_word_def Let_def scan_ld_None [symmetric])
  next
    case (Some n)
    then obtain r where "scan_ld (mesh_file st) = (Some n, r)"
      by (cases "scan_ld (mesh_file st)") auto
    with kw Some show ?thesis
      by (auto simp add: read_triangles_def expect_word_def Let_def scan_ld_None [symmetric]
          split: if_splits dest: triangle_loop_Inl)
  qed
next
  assume kw: "sscanf_s (line st) (str st) = ''Tetrahedra''"
  show "(\<exists>st'. read_tetrahedra to_index st = Inl (Returned_false Expecting_number_of_tetrahedra, st'))
        \<longleftrightarrow> fst (scan_integer (mesh_file st)) = None"
  proof (cases "fst (scan_ld (mesh_file st))")
    case None
    then obtain r where "scan_ld (mesh_file st) = (None, r)"
      by (cases "scan_ld (mesh_file st)") auto
    with kw None show ?thesis
      by (simp add: read_tetrahedra_def expect_word_def Let_def scan_ld_None [symmetric])
  next
    case (Some n)
    then obtain r where "scan_ld (mesh_file st) = (Some n, r)"
      by (cases "scan_ld (mesh_file st)") auto
    with kw Some show ?thesis
      by (auto simp add: read_tetrahedra_def expect_word_def Let_def scan_ld_None [symmetric]
          split: if_splits dest: tetrahedron_loop_Inl)
  qed
qed

lemma finish_vertices_count:
  "finish (and_then (and_then (Some (read_vertices scan_lg st))
      (section_of (read_triangles to_index))) (section_of (read_tetrahedra to_index)))
     = Some (Returned_false Expecting_number_of_vertices, st')
   \<longleftrightarrow> read_vertices scan_lg st = Inl (Returned_false Expecting_number_of_vertices, st')"
  (is "?L \<longleftrightarrow> ?R")
proof
  assume ?R
  then show ?L by (simp add: finish_def and_then_def)
next
  assume l: ?L
  show ?R
  proof (cases "read_vertices scan_lg st")
    case (Inl e)
    with l show ?thesis by (simp add: finish_def and_then_def)
  next
    case (Inr s)
    with l have "and_then (section_of (read_triangles to_index) s)
        (section_of (read_tetrahedra to_index))
      = Some (Inl (Returned_false Expecting_number_of_vertices, st'))"
      by (auto simp add: finish_def and_then_def split: option.splits sum.splits)
    then have False
      by (auto dest!: and_then_Inl section_of_Inl dest: read_triangles_Inl read_tetrahedra_Inl)
    then show ?thesis ..
  qed
qed

lemma finish_triangles_count:
  "finish (and_then (Some (read_triangles to_index st)) (section_of (read_tetrahedra to_index)))
     = Some (Returned_false Expecting_number_of_triangles, st')
   \<longleftrightarrow> read_triangles to_index st = Inl (Returned_false Expecting_number_of_triangles, st')"
  (is "?L \<longleftrightarrow> ?R")
proof
  assume ?R
  then show ?L by (simp add: finish_def and_then_def)
next
  assume l: ?L
  show ?R
  proof (cases "read_triangles to_index st")
    case (Inl e)
    with l show ?thesis by (simp add: finish_def and_then_def)
  next
    case (Inr s)
    with l have "section_of (read_tetrahedra to_index) s
      = Some (Inl (Returned_false Expecting_number_of_triangles, st'))"
      by (auto simp add: finish_def and_then_def split: option.splits sum.splits)
    then have False
      by (auto dest!: section_of_Inl dest: read_tetrahedra_Inl)
    then show ?thesis ..
  qed
qed

lemma finish_tetrahedra_count:
  "finish (Some (read_tetrahedra to_index st))
     = Some (Returned_false Expecting_number_of_tetrahedra, st')
   \<longleftrightarrow> read_tetrahedra to_index st = Inl (Returned_false Expecting_number_of_tetrahedra, st')"
  by (auto simp add: finish_def split: sum.splits)

lemma one_vertex_of_two_before:
  "before_vertices one_vertex_of_two (fresh_state :: (rat, int) state)
     = Some (fresh_state\<lparr>is_open := True, line := ''Vertices\<newline>'', str := ''Dimension'',
          mesh_file := ''2\<newline>1 2 3 0\<newline>''\<rparr>)"
  by (simp add: before_vertices_def one_vertex_of_two_def fresh_state_def scan_defs run_defs Let_def)

lemma negative_vertex_count_before:
  "before_vertices negative_vertex_count (fresh_state :: (rat, int) state)
     = Some (fresh_state\<lparr>is_open := True, line := ''Vertices\<newline>'', str := ''Dimension'',
          mesh_file := ''-1\<newline>''\<rparr>)"
  by (simp add: before_defs negative_vertex_count_def fresh_state_def scan_defs run_defs Let_def)

lemma word_for_triangle_count_before:
  "before_triangles scan_lg_decimal word_for_triangle_count (fresh_state :: (rat, int) state)
     = Some (fresh_state\<lparr>is_open := True, line := ''Triangles\<newline>'', str := ''Vertices'',
          mesh_file := ''many\<newline>''\<rparr>)"
  by (simp add: before_defs word_for_triangle_count_def fresh_state_def scan_defs run_defs Let_def)

lemma no_tetrahedron_count_before:
  "before_tetrahedra scan_lg_decimal sint no_tetrahedron_count (fresh_state :: (rat, int) state)
     = Some (fresh_state\<lparr>is_open := True, line := ''Tetrahedra\<newline>'', str := ''Triangles'',
          mesh_file := []\<rparr>)"
  by (simp add: before_defs no_tetrahedron_count_def fresh_state_def scan_defs run_defs Let_def)

lemma two_triangles_run:
  "readMESH scan_lg_decimal sint (Some two_triangles) fresh_state
     = Some (Returned_true,
         \<lparr>V = [], T = [[0, 1, 2, 3]], F = [[0, 1, 2], [3, 1, 0]], mesh_file = ''\<newline>'',
          is_open = False, line = ''Tetrahedra\<newline>'', str = ''Tetrahedra'',
          number_of_vertices = 0, number_of_triangles = 2, number_of_tetrahedra = 1\<rparr>)"
  by (simp add: two_triangles_def fresh_state_def scan_defs run_defs Let_def)
     (simp add: eval_nat_numeral)

lemma two_triangles_before:
  "before_triangles scan_lg_decimal two_triangles (fresh_state :: (rat, int) state)
     = Some (fresh_state\<lparr>is_open := True, line := ''Triangles\<newline>'', str := ''Vertices'',
          mesh_file := ''2\<newline>1 2 3 0\<newline>4 2 1 7\<newline>Tetrahedra\<newline>1\<newline>1 2 3 4 0\<newline>''\<rparr>)"
  "before_tetrahedra scan_lg_decimal sint two_triangles (fresh_state :: (rat, int) state)
     = Some (fresh_state\<lparr>is_open := True, line := ''Tetrahedra\<newline>'', str := ''Triangles'',
          mesh_file := ''1\<newline>1 2 3 4 0\<newline>'', number_of_triangles := 2,
          F := [[0, 1, 2], [3, 1, 0]]\<rparr>)"
  by (simp_all add: before_defs two_triangles_def fresh_state_def scan_defs run_defs Let_def)
     (simp_all add: eval_nat_numeral)

lemma two_triangles_records:
  "triangle_records 2 (snd (scan_ld ''2\<newline>1 2 3 0\<newline>4 2 1 7\<newline>Tetrahedra\<newline>1\<newline>1 2 3 4 0\<newline>''))
     = [(1, 2, 3), (4, 2, 1)]"
  "tetrahedron_records 1 (snd (scan_ld ''1\<newline>1 2 3 4 0\<newline>'')) = [(1, 2, 3, 4)]"
  by (simp_all add: numeral_2_eq_2 scan_defs Let_def)


section \<open>Claims\<close>

text \<open>
  C1 (the file is closed on every exit path): the failure branch of the triangle loop
  returns \<open>false\<close> without \<open>fclose\<close>, which every other failure branch calls.  A
  file that announces one triangle and ends there makes the call return with the handle
  still open.
\<close>

theorem triangle_failure_leaves_file_open:
  "\<exists>st. readMESH scan_lg to_index
     (Some ''MeshVersionFormatted 1\<newline>Dimension 3\<newline>Vertices\<newline>0\<newline>Triangles\<newline>1\<newline>'') st0
       = Some (Returned_false Expecting_triangle_indices, st) \<and> is_open st"
  by (simp add: scan_defs run_defs Let_def)

text \<open>
  C2 (index rebasing): when the call returns \<open>true\<close>, row \<open>i\<close> of \<open>F\<close> holds, for
  the three index fields \<open>k\<close> of record \<open>i\<close> after the count of the triangles, the
  conversion to \<open>Index\<close> of the \<open>size_t\<close> value \<open>k - 1\<close>, and row \<open>i\<close> of \<open>T\<close> the
  same for the four index fields of record \<open>i\<close> of the tetrahedra; for a field read as
  an integer of at least 1 the subtraction does not wrap: its value is the file's value
  minus one.
\<close>

theorem index_rebasing:
  "(readMESH scan_lg to_index (Some content) st0 = Some (Returned_true, st) \<and> i < length (F st) \<longrightarrow>
      (\<exists>s a b c. before_triangles scan_lg content st0 = Some s
         \<and> triangle_records (length (F st)) (snd (scan_ld (mesh_file s))) ! i = (a, b, c)
         \<and> F st ! i = map (\<lambda>k. to_index (k - 1)) [a, b, c]
         \<and> (\<forall>k \<in> set [a, b, c]. 1 \<le> sint k \<longrightarrow> uint (k - 1) = sint k - 1)))
   \<and> (readMESH scan_lg to_index (Some content) st0 = Some (Returned_true, st) \<and> i < length (T st) \<longrightarrow>
      (\<exists>s a b c d. before_tetrahedra scan_lg to_index content st0 = Some s
         \<and> tetrahedron_records (length (T st)) (snd (scan_ld (mesh_file s))) ! i = (a, b, c, d)
         \<and> T st ! i = map (\<lambda>k. to_index (k - 1)) [a, b, c, d]
         \<and> (\<forall>k \<in> set [a, b, c, d]. 1 \<le> sint k \<longrightarrow> uint (k - 1) = sint k - 1)))"
proof (rule conjI; rule impI)
  assume h: "readMESH scan_lg to_index (Some content) st0 = Some (Returned_true, st) \<and> i < length (F st)"
  from readMESH_true_run [of scan_lg to_index content st0 st] h obtain s4 s4' where
    c: "before_triangles scan_lg content st0 = Some s4" "read_triangles to_index s4 = Inr s4'"
      "F s4 = []" "F st = F s4'"
    by blast
  from read_triangles_Inr [OF c(2,3)] obtain n r where
    *: "scan_ld (mesh_file s4) = (Some n, r)" "length (triangle_records (unat n) r) = unat n"
       "F s4' = map (face_row to_index) (triangle_records (unat n) r)"
    by auto
  obtain a b c' where abc: "triangle_records (unat n) r ! i = (a, b, c')"
    by (cases "triangle_records (unat n) r ! i") auto
  from * h c(4) abc have "F st ! i = map (\<lambda>k. to_index (k - 1)) [a, b, c']"
    by (simp add: face_row_def)
  with * abc c(1,4) have "before_triangles scan_lg content st0 = Some s4
         \<and> triangle_records (length (F st)) (snd (scan_ld (mesh_file s4))) ! i = (a, b, c')
         \<and> F st ! i = map (\<lambda>k. to_index (k - 1)) [a, b, c']
         \<and> (\<forall>k \<in> set [a, b, c']. 1 \<le> sint k \<longrightarrow> uint (k - 1) = sint k - 1)"
    by (simp add: rebase_no_wrap)
  then show "\<exists>s a b c. before_triangles scan_lg content st0 = Some s
         \<and> triangle_records (length (F st)) (snd (scan_ld (mesh_file s))) ! i = (a, b, c)
         \<and> F st ! i = map (\<lambda>k. to_index (k - 1)) [a, b, c]
         \<and> (\<forall>k \<in> set [a, b, c]. 1 \<le> sint k \<longrightarrow> uint (k - 1) = sint k - 1)"
    by blast
next
  assume h: "readMESH scan_lg to_index (Some content) st0 = Some (Returned_true, st) \<and> i < length (T st)"
  from readMESH_true_run [of scan_lg to_index content st0 st] h obtain s5 s6 where
    c: "before_tetrahedra scan_lg to_index content st0 = Some s5"
      "read_tetrahedra to_index s5 = Inr s6" "T s5 = []" "T st = T s6"
    by blast
  from read_tetrahedra_Inr [OF c(2,3)] obtain n r where
    *: "scan_ld (mesh_file s5) = (Some n, r)" "length (tetrahedron_records (unat n) r) = unat n"
       "T s6 = map (tet_row to_index) (tetrahedron_records (unat n) r)"
    by auto
  obtain a b c' d where abc: "tetrahedron_records (unat n) r ! i = (a, b, c', d)"
    by (cases "tetrahedron_records (unat n) r ! i") auto
  from * h c(4) abc have "T st ! i = map (\<lambda>k. to_index (k - 1)) [a, b, c', d]"
    by (simp add: tet_row_def)
  with * abc c(1,4) have "before_tetrahedra scan_lg to_index content st0 = Some s5
         \<and> tetrahedron_records (length (T st)) (snd (scan_ld (mesh_file s5))) ! i = (a, b, c', d)
         \<and> T st ! i = map (\<lambda>k. to_index (k - 1)) [a, b, c', d]
         \<and> (\<forall>k \<in> set [a, b, c', d]. 1 \<le> sint k \<longrightarrow> uint (k - 1) = sint k - 1)"
    by (simp add: rebase_no_wrap)
  then show "\<exists>s a b c d. before_tetrahedra scan_lg to_index content st0 = Some s
         \<and> tetrahedron_records (length (T st)) (snd (scan_ld (mesh_file s))) ! i = (a, b, c, d)
         \<and> T st ! i = map (\<lambda>k. to_index (k - 1)) [a, b, c, d]
         \<and> (\<forall>k \<in> set [a, b, c, d]. 1 \<le> sint k \<longrightarrow> uint (k - 1) = sint k - 1)"
    by blast
qed

theorem index_rebasing_witness:
  "readMESH scan_lg_decimal sint (Some two_triangles) fresh_state
     = Some (Returned_true,
         \<lparr>V = [], T = [[0, 1, 2, 3]], F = [[0, 1, 2], [3, 1, 0]], mesh_file = ''\<newline>'',
          is_open = False, line = ''Tetrahedra\<newline>'', str = ''Tetrahedra'',
          number_of_vertices = 0, number_of_triangles = 2, number_of_tetrahedra = 1\<rparr>)
   \<and> (\<exists>s. before_triangles scan_lg_decimal two_triangles (fresh_state :: (rat, int) state) = Some s
        \<and> triangle_records 2 (snd (scan_ld (mesh_file s))) ! 1 = (4, 2, 1))
   \<and> [[0, 1, 2], [3, 1, 0]] ! 1 = map (\<lambda>k. sint (k - 1)) [4, 2, 1 :: 64 word]
   \<and> uint ((4 :: 64 word) - 1) = sint (4 :: 64 word) - 1
   \<and> (\<exists>s. before_tetrahedra scan_lg_decimal sint two_triangles (fresh_state :: (rat, int) state)
          = Some s
        \<and> tetrahedron_records 1 (snd (scan_ld (mesh_file s))) ! 0 = (1, 2, 3, 4))
   \<and> [[0, 1, 2, 3]] ! 0 = map (\<lambda>k. sint (k - 1)) [1, 2, 3, 4 :: 64 word]"
proof -
  let ?st = "\<lparr>V = [], T = [[0, 1, 2, 3]], F = [[0, 1, 2], [3, 1, 0]], mesh_file = ''\<newline>'',
          is_open = False, line = ''Tetrahedra\<newline>'', str = ''Tetrahedra'',
          number_of_vertices = 0, number_of_triangles = 2, number_of_tetrahedra = 1\<rparr>
          :: (rat, int) state"
  from index_rebasing [of scan_lg_decimal sint two_triangles fresh_state ?st 1]
    index_rebasing [of scan_lg_decimal sint two_triangles fresh_state ?st 0]
    two_triangles_run two_triangles_before two_triangles_records
  show ?thesis by (simp add: numeral_2_eq_2)
qed

text \<open>
  C3 (the end-to-end scenario of the spec): the call returns \<open>true\<close> with the four
  vertices, the face \<open>[0,1,2]\<close> and the tetrahedron \<open>[0,1,2,3]\<close>, and the file closed,
  whatever the locals held before and whatever the conversion to \<open>Index\<close> is.
\<close>

theorem readMESH_end_to_end_scenario:
  "\<exists>st. readMESH scan_lg_decimal to_index
     (Some ''MeshVersionFormatted 1\<newline>Dimension 3\<newline>Vertices\<newline>4\<newline>0 0 0 0\<newline>1 0 0 0\<newline>0 1 0 0\<newline>0 0 1 0\<newline>Triangles\<newline>1\<newline>1 2 3 0\<newline>Tetrahedra\<newline>1\<newline>1 2 3 4 0\<newline>'') st0
       = Some (Returned_true, st)
     \<and> V st = [[0, 0, 0], [1, 0, 0], [0, 1, 0], [0, 0, 1]]
     \<and> F st = [[to_index 0, to_index 1, to_index 2]]
     \<and> T st = [[to_index 0, to_index 1, to_index 2, to_index 3]]
     \<and> \<not> is_open st"
  using scenario_run [of to_index st0] by (simp add: scenario_file_def)

text \<open>
  C4 (extra blank and comment lines between the tokens change nothing), as the code has
  it: the code skips such lines only in the comment loop that precedes each keyword.
  Blank and comment lines put where a comment loop starts, in front of input that is not
  empty, leave the section that follows unchanged; put at the start of a file, they
  leave the whole call unchanged.
\<close>

theorem comment_lines_before_a_keyword:
  assumes "list_all comment_line ls"
  shows "(mesh_file st \<noteq> [] \<longrightarrow>
      section_of check (st\<lparr>mesh_file := concat ls @ mesh_file st\<rparr>) = section_of check st)
    \<and> (content \<noteq> [] \<longrightarrow>
      readMESH scan_lg to_index (Some (concat ls @ content)) st0
        = readMESH scan_lg to_index (Some content) st0)"
proof (intro conjI impI)
  assume "mesh_file st \<noteq> []"
  from eat_comments_comment_lines [OF assms this]
  show "section_of check (st\<lparr>mesh_file := concat ls @ mesh_file st\<rparr>) = section_of check st"
    by (simp add: section_of_def)
next
  assume ne: "content \<noteq> []"
  have o: "opened (concat ls @ content) st0
      = (opened content st0)\<lparr>mesh_file := concat ls @ mesh_file (opened content st0)\<rparr>"
    by (simp add: opened_def)
  from ne have "mesh_file (opened content st0) \<noteq> []" by (simp add: opened_def)
  from eat_comments_comment_lines [OF assms this]
  have "section_of check_version (opened (concat ls @ content) st0)
      = section_of check_version (opened content st0)"
    unfolding o by (simp add: section_of_def)
  then show "readMESH scan_lg to_index (Some (concat ls @ content)) st0
        = readMESH scan_lg to_index (Some content) st0"
    by (simp add: readMESH_def sections_def)
qed

theorem comment_lines_before_a_keyword_witness:
  "list_all comment_line [''# a comment\<newline>'', ''\<newline>'', ''#\<newline>'']
   \<and> mesh_file at_dimension \<noteq> []
   \<and> section_of check_dimension
        (at_dimension\<lparr>mesh_file := concat [''# a comment\<newline>'', ''\<newline>'', ''#\<newline>'']
           @ mesh_file at_dimension\<rparr>)
      = section_of check_dimension at_dimension
   \<and> one_tetrahedron \<noteq> []
   \<and> readMESH scan_lg_decimal sint
        (Some (concat [''# a comment\<newline>'', ''\<newline>'', ''#\<newline>''] @ one_tetrahedron)) fresh_state
      = readMESH scan_lg_decimal sint (Some one_tetrahedron) fresh_state"
proof -
  have 1: "list_all comment_line [''# a comment\<newline>'', ''\<newline>'', ''#\<newline>'']"
    by (simp add: comment_line_def LINE_MAX_def)
  have 2: "mesh_file at_dimension \<noteq> []" by (simp add: at_dimension_def fresh_state_def)
  have 3: "one_tetrahedron \<noteq> []" by (simp add: one_tetrahedron_def)
  from comment_lines_before_a_keyword [OF 1, of at_dimension check_dimension one_tetrahedron
      scan_lg_decimal sint fresh_state] 1 2 3
  show ?thesis by simp
qed

text \<open>
  C4 as stated fails: a file that parses, and the same file with a comment line between
  the count of the tetrahedra and the record, where \<open>fscanf\<close> meets the \<open>#\<close> and the
  call returns \<open>false\<close>.
\<close>

theorem comment_between_count_and_record_counterexample:
  "readMESH scan_lg_decimal sint (Some one_tetrahedron) fresh_state
     = Some (Returned_true,
         \<lparr>V = [], T = [[0, 1, 2, 3]], F = [], mesh_file = ''\<newline>'', is_open = False,
          line = ''Tetrahedra\<newline>'', str = ''Tetrahedra'', number_of_vertices = 0,
          number_of_triangles = 0, number_of_tetrahedra = 1\<rparr>)
   \<and> readMESH scan_lg_decimal sint (Some one_tetrahedron_commented) fresh_state
     = Some (Returned_false Expecting_tetrahedra_indices,
         \<lparr>V = [], T = [[0, 0, 0, 0]], F = [], mesh_file = ''# the tetrahedron\<newline>1 2 3 4 0\<newline>'',
          is_open = False, line = ''Tetrahedra\<newline>'', str = ''Tetrahedra'',
          number_of_vertices = 0, number_of_triangles = 0, number_of_tetrahedra = 1\<rparr>)
   \<and> one_tetrahedron
     = ''MeshVersionFormatted 1\<newline>Dimension 3\<newline>Vertices\<newline>0\<newline>Triangles\<newline>0\<newline>Tetrahedra\<newline>1\<newline>''
       @ ''1 2 3 4 0\<newline>''
   \<and> one_tetrahedron_commented
     = ''MeshVersionFormatted 1\<newline>Dimension 3\<newline>Vertices\<newline>0\<newline>Triangles\<newline>0\<newline>Tetrahedra\<newline>1\<newline>''
       @ ''# the tetrahedron\<newline>'' @ ''1 2 3 4 0\<newline>''
   \<and> comment_line ''# the tetrahedron\<newline>''
   \<and> readMESH scan_lg_decimal sint (Some one_tetrahedron_commented) (fresh_state :: (rat, int) state)
     \<noteq> readMESH scan_lg_decimal sint (Some one_tetrahedron) fresh_state"
proof -
  have a: "readMESH scan_lg_decimal sint (Some one_tetrahedron) fresh_state
     = Some (Returned_true,
         \<lparr>V = [], T = [[0, 1, 2, 3]], F = [], mesh_file = ''\<newline>'', is_open = False,
          line = ''Tetrahedra\<newline>'', str = ''Tetrahedra'', number_of_vertices = 0,
          number_of_triangles = 0, number_of_tetrahedra = 1\<rparr>)"
    by (simp add: one_tetrahedron_def fresh_state_def scan_defs run_defs Let_def)
       (simp add: eval_nat_numeral)
  have b: "readMESH scan_lg_decimal sint (Some one_tetrahedron_commented) fresh_state
     = Some (Returned_false Expecting_tetrahedra_indices,
         \<lparr>V = [], T = [[0, 0, 0, 0]], F = [], mesh_file = ''# the tetrahedron\<newline>1 2 3 4 0\<newline>'',
          is_open = False, line = ''Tetrahedra\<newline>'', str = ''Tetrahedra'',
          number_of_vertices = 0, number_of_triangles = 0, number_of_tetrahedra = 1\<rparr>)"
    by (simp add: one_tetrahedron_commented_def fresh_state_def scan_defs run_defs Let_def)
       (simp add: eval_nat_numeral)
  have c: "comment_line ''# the tetrahedron\<newline>''"
    by (simp add: comment_line_def LINE_MAX_def)
  have d: "one_tetrahedron
     = ''MeshVersionFormatted 1\<newline>Dimension 3\<newline>Vertices\<newline>0\<newline>Triangles\<newline>0\<newline>Tetrahedra\<newline>1\<newline>''
       @ ''1 2 3 4 0\<newline>''"
    "one_tetrahedron_commented
     = ''MeshVersionFormatted 1\<newline>Dimension 3\<newline>Vertices\<newline>0\<newline>Triangles\<newline>0\<newline>Tetrahedra\<newline>1\<newline>''
       @ ''# the tetrahedron\<newline>'' @ ''1 2 3 4 0\<newline>''"
    by (simp_all add: one_tetrahedron_def one_tetrahedron_commented_def)
  from a b have "readMESH scan_lg_decimal sint (Some one_tetrahedron_commented)
      (fresh_state :: (rat, int) state)
     \<noteq> readMESH scan_lg_decimal sint (Some one_tetrahedron) fresh_state"
    by simp
  with a b c d show ?thesis by blast
qed

text \<open>
  C5 (a file truncated after \<open>n\<close> of \<open>N\<close> vertex records fails), as the code has it:
  when the call reaches the \<open>Vertices\<close> keyword, reads the count \<open>N\<close> and finds only
  \<open>n < N\<close> complete records after it, it returns \<open>false\<close> after the message
  "expecting vertex position", with the file closed; the caller's \<open>V\<close> then holds \<open>N\<close>
  rows, the \<open>n\<close> records read followed by rows of zeros, and \<open>T\<close> and \<open>F\<close> are empty.
\<close>

theorem truncated_vertices:
  assumes "before_vertices content st0 = Some st"
    and "sscanf_s (line st) (str st) = ''Vertices''"
    and "scan_ld (mesh_file st) = (Some N, body)"
    and "unat N \<le> vector_max_size"
    and "length (vertex_records scan_lg (unat N) body) = n"
    and "n < unat N"
  shows "\<exists>st'. readMESH scan_lg to_index (Some content) st0
        = Some (Returned_false Expecting_vertex_position, st')
    \<and> \<not> is_open st'
    \<and> V st' = vertex_records scan_lg (unat N) body @ replicate (unat N - n) [0, 0, 0]
    \<and> T st' = [] \<and> F st' = []"
proof -
  note b = before_vertices_sections(1) [OF assms(1), of scan_lg to_index]
    before_vertices_sections(2-4) [OF assms(1)]
  obtain e where e: "read_vertices scan_lg st = e" by simp
  show ?thesis
  proof (cases e)
    case (Inr st')
    with read_vertices_result [OF assms(2,3,4) b(2), of scan_lg] assms(5,6) e show ?thesis by simp
  next
    case (Inl x)
    obtain res st' where x: "x = (res, st')" by (cases x)
    from Inl x e b(1) have "readMESH scan_lg to_index (Some content) st0 = Some (res, st')"
      by (simp add: readMESH_def finish_def and_then_def)
    with Inl x e read_vertices_result [OF assms(2,3,4) b(2), of scan_lg] assms(5) b(3,4)
    show ?thesis by (simp add: eval_nat_numeral)
  qed
qed

theorem truncated_vertices_witness:
  "before_vertices one_vertex_of_two (fresh_state :: (rat, int) state)
     = Some (fresh_state\<lparr>is_open := True, line := ''Vertices\<newline>'', str := ''Dimension'',
          mesh_file := ''2\<newline>1 2 3 0\<newline>''\<rparr>)
   \<and> scan_ld ''2\<newline>1 2 3 0\<newline>'' = (Some 2, ''\<newline>1 2 3 0\<newline>'')
   \<and> unat (2 :: 64 word) \<le> vector_max_size
   \<and> vertex_records scan_lg_decimal (unat (2 :: 64 word)) ''\<newline>1 2 3 0\<newline>'' = [[1, 2, 3]]
   \<and> (\<exists>st'. readMESH scan_lg_decimal sint (Some one_vertex_of_two) (fresh_state :: (rat, int) state)
         = Some (Returned_false Expecting_vertex_position, st')
       \<and> \<not> is_open st'
       \<and> V st' = [[1, 2, 3]] @ replicate 1 [0, 0, 0]
       \<and> T st' = [] \<and> F st' = [])"
proof -
  let ?st = "fresh_state\<lparr>is_open := True, line := ''Vertices\<newline>'', str := ''Dimension'',
          mesh_file := ''2\<newline>1 2 3 0\<newline>''\<rparr> :: (rat, int) state"
  have 2: "sscanf_s (line ?st) (str ?st) = ''Vertices''"
    by (simp add: fresh_state_def scan_defs)
  have 3: "scan_ld (mesh_file ?st) = (Some 2, ''\<newline>1 2 3 0\<newline>'')"
    by (simp add: fresh_state_def scan_defs)
  have 4: "unat (2 :: 64 word) \<le> vector_max_size" by (simp add: vector_max_size_def)
  have u: "unat (2 :: 64 word) = Suc (Suc 0)" by simp
  have recs: "vertex_records scan_lg_decimal (unat (2 :: 64 word)) ''\<newline>1 2 3 0\<newline>'' = [[1, 2, 3]]"
    unfolding u by (simp add: scan_defs Let_def)
  then have 5: "length (vertex_records scan_lg_decimal (unat (2 :: 64 word)) ''\<newline>1 2 3 0\<newline>'') = 1"
    by simp
  have 6: "(1 :: nat) < unat (2 :: 64 word)" by simp
  from truncated_vertices [OF one_vertex_of_two_before 2 3 4 5 6, of sint] recs 3 4
    one_vertex_of_two_before
  show ?thesis by (simp add: fresh_state_def)
qed

text \<open>
  C5 as stated fails: on a file with one vertex record of the two it announces, the
  message of the call has no record index, and the caller's \<open>V\<close> holds the record read
  and a row of zeros: a partial result is there for the caller.
\<close>

theorem truncated_vertices_counterexample:
  "readMESH scan_lg_decimal sint (Some one_vertex_of_two) fresh_state
   = Some (Returned_false Expecting_vertex_position,
       \<lparr>V = [[1, 2, 3], [0, 0, 0]], T = [], F = [], mesh_file = [], is_open = False,
        line = ''Vertices\<newline>'', str = ''Vertices'', number_of_vertices = 2,
        number_of_triangles = 0, number_of_tetrahedra = 0\<rparr>)"
  by (simp add: one_vertex_of_two_def fresh_state_def scan_defs run_defs Let_def)
     (simp add: eval_nat_numeral)



text \<open>
  C7 (the value of \<open>MeshVersionFormatted\<close> and \<open>Dimension\<close> is taken from the
  keyword's line first and from the stream only if the line has none; it must be 1, or
  3): the check of each keyword succeeds exactly when the first word of the line is the
  keyword and \<open>keyword_value\<close> is the required number, and the stream is then where
  \<open>keyword_value\<close> left it: untouched when the line had the value.
\<close>

theorem value_same_line_then_next_token:
  "((\<exists>st'. check_version st = Inr st') \<longleftrightarrow>
      sscanf_s (line st) (str st) = ''MeshVersionFormatted'' \<and> fst (keyword_value st) = Some 1)
   \<and> (check_version st = Inr st' \<longrightarrow> mesh_file st' = snd (keyword_value st))
   \<and> ((\<exists>st'. check_dimension st = Inr st') \<longleftrightarrow>
      sscanf_s (line st) (str st) = ''Dimension'' \<and> fst (keyword_value st) = Some 3)
   \<and> (check_dimension st = Inr st' \<longrightarrow> mesh_file st' = snd (keyword_value st))"
proof -
  let ?s1 = "st\<lparr>str := sscanf_s (line st) (str st)\<rparr>"
  have kv: "keyword_value ?s1 = keyword_value st"
    by (simp add: keyword_value_def split: option.splits)
  obtain v s2 where rs: "read_scalar ?s1 = (v, s2)" by (cases "read_scalar ?s1")
  note * = read_scalar_keyword_value [OF rs, unfolded kv]
  show ?thesis
    using * rs
    by (auto simp add: check_version_def check_dimension_def expect_word_def Let_def
        split: option.splits if_splits)
qed

theorem value_same_line_then_next_token_witness:
  "(\<exists>st'. check_version at_version = Inr st')
   \<and> sscanf_s (line at_version) (str at_version) = ''MeshVersionFormatted''
   \<and> same_line_value (line at_version) = Some 1
   \<and> keyword_value at_version = (Some 1, ''Dimension 3\<newline>'')
   \<and> check_version at_version = Inr (at_version\<lparr>str := ''MeshVersionFormatted''\<rparr>)
   \<and> mesh_file (at_version\<lparr>str := ''MeshVersionFormatted''\<rparr>) = snd (keyword_value at_version)
   \<and> (\<exists>st'. check_dimension at_dimension = Inr st')
   \<and> sscanf_s (line at_dimension) (str at_dimension) = ''Dimension''
   \<and> same_line_value (line at_dimension) = None
   \<and> keyword_value at_dimension = (Some 3, ''\<newline>Vertices\<newline>'')
   \<and> check_dimension at_dimension
       = Inr (at_dimension\<lparr>str := ''Dimension'', mesh_file := ''\<newline>Vertices\<newline>''\<rparr>)
   \<and> mesh_file (at_dimension\<lparr>str := ''Dimension'', mesh_file := ''\<newline>Vertices\<newline>''\<rparr>)
       = snd (keyword_value at_dimension)"
proof -
  have v: "check_version at_version = Inr (at_version\<lparr>str := ''MeshVersionFormatted''\<rparr>)"
    by (simp add: at_version_def fresh_state_def scan_defs run_defs Let_def)
  have d: "check_dimension at_dimension
       = Inr (at_dimension\<lparr>str := ''Dimension'', mesh_file := ''\<newline>Vertices\<newline>''\<rparr>)"
    by (simp add: at_dimension_def fresh_state_def scan_defs run_defs Let_def)
  have kv: "sscanf_s (line at_version) (str at_version) = ''MeshVersionFormatted''"
    "same_line_value (line at_version) = Some 1"
    "keyword_value at_version = (Some 1, ''Dimension 3\<newline>'')"
    by (simp_all add: at_version_def fresh_state_def keyword_value_def same_line_value_def
        scan_defs Let_def)
  have kd: "sscanf_s (line at_dimension) (str at_dimension) = ''Dimension''"
    "same_line_value (line at_dimension) = None"
    "keyword_value at_dimension = (Some 3, ''\<newline>Vertices\<newline>'')"
    by (simp_all add: at_dimension_def fresh_state_def keyword_value_def same_line_value_def
        next_token_value_def scan_defs Let_def)
  from value_same_line_then_next_token [of at_version "at_version\<lparr>str := ''MeshVersionFormatted''\<rparr>"]
    value_same_line_then_next_token [of at_dimension
      "at_dimension\<lparr>str := ''Dimension'', mesh_file := ''\<newline>Vertices\<newline>''\<rparr>"]
    v d kv kd
  show ?thesis by simp
qed

text \<open>
  C8 (when a count is malformed), as the code has it: the counts are read with \<open>%ld\<close>,
  which takes a sign.  For each of the three sections, when the call has found the
  keyword, it returns \<open>false\<close> with the message for that section's malformed count
  exactly when the input after the keyword's line, after white space, does not start with
  an optionally signed decimal integer.
\<close>

theorem count_accepted_iff_signed_decimal:
  "(before_vertices content st0 = Some st \<and> sscanf_s (line st) (str st) = ''Vertices'' \<longrightarrow>
      ((\<exists>st'. readMESH scan_lg to_index (Some content) st0
              = Some (Returned_false Expecting_number_of_vertices, st'))
        \<longleftrightarrow> fst (scan_integer (mesh_file st)) = None))
   \<and> (before_triangles scan_lg content st0 = Some st
        \<and> sscanf_s (line st) (str st) = ''Triangles'' \<longrightarrow>
      ((\<exists>st'. readMESH scan_lg to_index (Some content) st0
              = Some (Returned_false Expecting_number_of_triangles, st'))
        \<longleftrightarrow> fst (scan_integer (mesh_file st)) = None))
   \<and> (before_tetrahedra scan_lg to_index content st0 = Some st
        \<and> sscanf_s (line st) (str st) = ''Tetrahedra'' \<longrightarrow>
      ((\<exists>st'. readMESH scan_lg to_index (Some content) st0
              = Some (Returned_false Expecting_number_of_tetrahedra, st'))
        \<longleftrightarrow> fst (scan_integer (mesh_file st)) = None))"
proof (intro conjI impI)
  assume h: "before_vertices content st0 = Some st \<and> sscanf_s (line st) (str st) = ''Vertices''"
  then have "readMESH scan_lg to_index (Some content) st0
      = finish (and_then (and_then (Some (read_vertices scan_lg st))
          (section_of (read_triangles to_index))) (section_of (read_tetrahedra to_index)))"
    by (simp add: readMESH_def before_vertices_sections(1))
  with h count_message_iff [of st scan_lg to_index]
  show "(\<exists>st'. readMESH scan_lg to_index (Some content) st0
              = Some (Returned_false Expecting_number_of_vertices, st'))
        \<longleftrightarrow> fst (scan_integer (mesh_file st)) = None"
    by (simp add: finish_vertices_count)
next
  assume h: "before_triangles scan_lg content st0 = Some st
    \<and> sscanf_s (line st) (str st) = ''Triangles''"
  then have "readMESH scan_lg to_index (Some content) st0
      = finish (and_then (Some (read_triangles to_index st)) (section_of (read_tetrahedra to_index)))"
    by (simp add: readMESH_def before_triangles_sections(1))
  with h count_message_iff [of st scan_lg to_index]
  show "(\<exists>st'. readMESH scan_lg to_index (Some content) st0
              = Some (Returned_false Expecting_number_of_triangles, st'))
        \<longleftrightarrow> fst (scan_integer (mesh_file st)) = None"
    by (simp add: finish_triangles_count)
next
  assume h: "before_tetrahedra scan_lg to_index content st0 = Some st
    \<and> sscanf_s (line st) (str st) = ''Tetrahedra''"
  then have "readMESH scan_lg to_index (Some content) st0
      = finish (Some (read_tetrahedra to_index st))"
    by (simp add: readMESH_def before_tetrahedra_sections(1))
  with h count_message_iff [of st scan_lg to_index]
  show "(\<exists>st'. readMESH scan_lg to_index (Some content) st0
              = Some (Returned_false Expecting_number_of_tetrahedra, st'))
        \<longleftrightarrow> fst (scan_integer (mesh_file st)) = None"
    by (simp add: finish_tetrahedra_count)
qed

theorem count_accepted_iff_signed_decimal_witness:
  "before_vertices negative_vertex_count (fresh_state :: (rat, int) state)
     = Some (fresh_state\<lparr>is_open := True, line := ''Vertices\<newline>'', str := ''Dimension'',
          mesh_file := ''-1\<newline>''\<rparr>)
   \<and> fst (scan_integer ''-1\<newline>'') = Some (- 1)
   \<and> \<not> (\<exists>st'. readMESH scan_lg_decimal sint (Some negative_vertex_count)
            (fresh_state :: (rat, int) state)
            = Some (Returned_false Expecting_number_of_vertices, st'))
   \<and> before_triangles scan_lg_decimal word_for_triangle_count (fresh_state :: (rat, int) state)
     = Some (fresh_state\<lparr>is_open := True, line := ''Triangles\<newline>'', str := ''Vertices'',
          mesh_file := ''many\<newline>''\<rparr>)
   \<and> fst (scan_integer ''many\<newline>'') = None
   \<and> (\<exists>st'. readMESH scan_lg_decimal sint (Some word_for_triangle_count)
            (fresh_state :: (rat, int) state)
            = Some (Returned_false Expecting_number_of_triangles, st'))
   \<and> before_tetrahedra scan_lg_decimal sint no_tetrahedron_count (fresh_state :: (rat, int) state)
     = Some (fresh_state\<lparr>is_open := True, line := ''Tetrahedra\<newline>'', str := ''Triangles'',
          mesh_file := []\<rparr>)
   \<and> fst (scan_integer []) = None
   \<and> (\<exists>st'. readMESH scan_lg_decimal sint (Some no_tetrahedron_count)
            (fresh_state :: (rat, int) state)
            = Some (Returned_false Expecting_number_of_tetrahedra, st'))"
proof -
  let ?v = "fresh_state\<lparr>is_open := True, line := ''Vertices\<newline>'', str := ''Dimension'',
          mesh_file := ''-1\<newline>''\<rparr> :: (rat, int) state"
  let ?t = "fresh_state\<lparr>is_open := True, line := ''Triangles\<newline>'', str := ''Vertices'',
          mesh_file := ''many\<newline>''\<rparr> :: (rat, int) state"
  let ?h = "fresh_state\<lparr>is_open := True, line := ''Tetrahedra\<newline>'', str := ''Triangles'',
          mesh_file := []\<rparr> :: (rat, int) state"
  have k: "sscanf_s (line ?v) (str ?v) = ''Vertices''" "sscanf_s (line ?t) (str ?t) = ''Triangles''"
    "sscanf_s (line ?h) (str ?h) = ''Tetrahedra''"
    by (simp_all add: fresh_state_def scan_defs)
  have n: "fst (scan_integer ''-1\<newline>'') = Some (- 1)" "fst (scan_integer ''many\<newline>'') = None"
    "fst (scan_integer []) = None"
    by (simp_all add: scan_defs Let_def)
  from count_accepted_iff_signed_decimal [of negative_vertex_count fresh_state ?v
      scan_lg_decimal sint]
    count_accepted_iff_signed_decimal [of word_for_triangle_count fresh_state ?t
      scan_lg_decimal sint]
    count_accepted_iff_signed_decimal [of no_tetrahedron_count fresh_state ?h
      scan_lg_decimal sint]
    negative_vertex_count_before word_for_triangle_count_before no_tetrahedron_count_before k n
  show ?thesis by (simp add: fresh_state_def)
qed

text \<open>
  C8 as stated fails: the vertex count \<open>-1\<close> is accepted.  The count becomes
  \<open>2^64 - 1\<close>, and the call ends in the exception of \<open>resize\<close>, the file open, and
  not in the message for a malformed count.
\<close>

theorem negative_count_counterexample:
  "readMESH scan_lg_decimal sint
     (Some ''MeshVersionFormatted 1\<newline>Dimension 3\<newline>Vertices\<newline>-1\<newline>'') fresh_state
   = Some (Threw_length_error,
       \<lparr>V = [], T = [], F = [], mesh_file = ''\<newline>'', is_open = True,
        line = ''Vertices\<newline>'', str = ''Vertices'', number_of_vertices = - 1,
        number_of_triangles = 0, number_of_tetrahedra = 0\<rparr>)"
  by (simp add: fresh_state_def scan_defs run_defs Let_def unat_minus_1_64)

text \<open>
  C9 (every finite input makes the parse return, also when the file ends on a blank or
  comment line): the code does not.  On the file that holds one newline the first
  \<open>fgets\<close> stores the blank line, the second is at the end of the file and leaves
  \<open>line\<close> as it was, so \<open>still_comments\<close> stays true for ever: the call has no result.
\<close>

theorem readMESH_blank_file_never_returns:
  "readMESH scan_lg to_index (Some ''\<newline>'') st0 = None"
proof -
  let ?st = "opened ''\<newline>'' st0"
  have "eat_comments ?st = eat_comments (fgets ?st)"
    by (rule eat_comments_skip) (simp add: fgets_def opened_def LINE_MAX_def first_char_def)
  also have "\<dots> = None"
    by (rule eat_comments_eof) (simp_all add: fgets_def opened_def LINE_MAX_def first_char_def)
  finally show ?thesis
    by (simp add: readMESH_def finish_def sections_def section_of_def and_then_def)
qed

text \<open>
  C10 (a successful parse yields rectangular collections of the declared sizes, so the
  irregular-shape branches of the Eigen overload cannot be reached): when the generic
  call returns \<open>true\<close>, \<open>V\<close>, \<open>F\<close> and \<open>T\<close> have as many rows as the counts read
  and rows of 3, 3 and 4 entries; and the Eigen overload returns \<open>false\<close> only when the
  generic call did.
\<close>

theorem parsed_document_is_rectangular:
  "(readMESH scan_lg to_index mesh st0 = Some (Returned_true, st) \<longrightarrow>
      length (V st) = unat (number_of_vertices st)
      \<and> length (F st) = unat (number_of_triangles st)
      \<and> length (T st) = unat (number_of_tetrahedra st)
      \<and> list_all (\<lambda>r. length r = 3) (V st)
      \<and> list_all (\<lambda>r. length r = 3) (F st)
      \<and> list_all (\<lambda>r. length r = 4) (T st))
   \<and> (readMESH_Eigen scan_double to_double cast_d cast_i mesh locals out = Some (Eigen_false, out') \<longrightarrow>
      (\<exists>m st'. readMESH scan_double to_double mesh (locals\<lparr>V := [], T := [], F := []\<rparr>)
         = Some (Returned_false m, st')))"
proof (rule conjI; rule impI)
  assume "readMESH scan_lg to_index mesh st0 = Some (Returned_true, st)"
  then show "length (V st) = unat (number_of_vertices st)
      \<and> length (F st) = unat (number_of_triangles st)
      \<and> length (T st) = unat (number_of_tetrahedra st)
      \<and> list_all (\<lambda>r. length r = 3) (V st)
      \<and> list_all (\<lambda>r. length r = 3) (F st)
      \<and> list_all (\<lambda>r. length r = 4) (T st)"
    by (rule readMESH_true_shapes)
next
  let ?call = "readMESH scan_double to_double mesh (locals\<lparr>V := [], T := [], F := []\<rparr>)"
  assume e: "readMESH_Eigen scan_double to_double cast_d cast_i mesh locals out = Some (Eigen_false, out')"
  then obtain res st' where call: "?call = Some (res, st')"
    by (cases ?call) (auto simp add: readMESH_Eigen_def)
  show "\<exists>m st'. ?call = Some (Returned_false m, st')"
  proof (cases res)
    case Returned_true
    with call have "to_matrices cast_d cast_i (V st', T st', F st') out = (Eigen_false, out')"
      using e by (simp add: readMESH_Eigen_def)
    moreover from readMESH_true_shapes [OF call [unfolded Returned_true]]
    have "fst (to_matrices cast_d cast_i (V st', T st', F st') out) \<noteq> Eigen_false"
      by (simp add: to_matrices_uniform)
    ultimately show ?thesis by simp
  next
    case (Returned_false m)
    with call show ?thesis by simp
  next
    case Threw_length_error
    with call e show ?thesis by (simp add: readMESH_Eigen_def)
  qed
qed

theorem parsed_document_is_rectangular_witness:
  "readMESH scan_lg_decimal sint (Some scenario_file) fresh_state
     = Some (Returned_true,
         fresh_state\<lparr>V := [[0, 0, 0], [1, 0, 0], [0, 1, 0], [0, 0, 1]],
             T := [[0, 1, 2, 3]], F := [[0, 1, 2]],
             mesh_file := ''\<newline>'', is_open := False,
             line := ''Tetrahedra\<newline>'', str := ''Tetrahedra'',
             number_of_vertices := 4, number_of_triangles := 1, number_of_tetrahedra := 1\<rparr>)
   \<and> length [[0, 0, 0], [1, 0, 0], [0, 1, 0], [0, 0, 1 :: rat]] = unat (4 :: 64 word)
   \<and> list_all (\<lambda>r. length r = 3) [[0, 0, 0], [1, 0, 0], [0, 1, 0], [0, 0, 1 :: rat]]
   \<and> list_all (\<lambda>r. length r = 4) [[0, 1, 2, 3 :: int]]
   \<and> readMESH_Eigen scan_lg_decimal (\<lambda>w. rat_of_nat (unat w)) id floor None fresh_state
        (empty_matrix, empty_matrix, empty_matrix)
      = Some (Eigen_false, empty_matrix, empty_matrix, empty_matrix)
   \<and> (\<exists>m st'. readMESH scan_lg_decimal (\<lambda>w. rat_of_nat (unat w)) None
          (fresh_state\<lparr>V := [], T := [], F := []\<rparr>) = Some (Returned_false m, st'))"
proof -
  have e: "readMESH_Eigen scan_lg_decimal (\<lambda>w. rat_of_nat (unat w)) id floor None fresh_state
        (empty_matrix, empty_matrix, empty_matrix)
      = Some (Eigen_false, empty_matrix, empty_matrix, empty_matrix)"
    by (simp add: readMESH_Eigen_def readMESH_def)
  have x: "\<exists>m st'. readMESH scan_lg_decimal (\<lambda>w. rat_of_nat (unat w)) None
          (fresh_state\<lparr>V := [], T := [], F := []\<rparr>) = Some (Returned_false m, st')"
    using parsed_document_is_rectangular [where scan_double = scan_lg_decimal
      and to_double = "\<lambda>w. rat_of_nat (unat w)" and cast_d = id and cast_i = floor and mesh = None
      and locals = fresh_state and out = "(empty_matrix, empty_matrix, empty_matrix)"
      and out' = "(empty_matrix, empty_matrix, empty_matrix)"] e
    by blast
  have y: "length [[0, 0, 0], [1, 0, 0], [0, 1, 0], [0, 0, 1 :: rat]] = unat (4 :: 64 word)
    \<and> list_all (\<lambda>r. length r = 3) [[0, 0, 0], [1, 0, 0], [0, 1, 0], [0, 0, 1 :: rat]]
    \<and> list_all (\<lambda>r. length r = 4) [[0, 1, 2, 3 :: int]]"
    using parsed_document_is_rectangular [where scan_lg = scan_lg_decimal and to_index = sint
      and mesh = "Some scenario_file" and ?st0.0 = fresh_state and st =
      "fresh_state\<lparr>V := [[0, 0, 0], [1, 0, 0], [0, 1, 0], [0, 0, 1]],
             T := [[0, 1, 2, 3]], F := [[0, 1, 2]],
             mesh_file := ''\<newline>'', is_open := False,
             line := ''Tetrahedra\<newline>'', str := ''Tetrahedra'',
             number_of_vertices := 4, number_of_triangles := 1, number_of_tetrahedra := 1\<rparr>"]
      scenario_run [of sint fresh_state]
    by simp
  from x y e scenario_run [of sint fresh_state] show ?thesis by simp
qed

end
